theory Spec2Isabelle
  imports Main "HOL-Library.Sublist" "HOL-Library.AList"
begin

section \<open>Data model of \<^verbatim>\<open>main.go\<close>\<close>

text \<open>
  Go strings are byte sequences: \<^verbatim>\<open>len\<close> counts bytes and \<^verbatim>\<open>s[i:j]\<close> slices bytes.
  They are modelled as \<^typ>\<open>string\<close>, a list of 8-bit characters.
\<close>

text \<open>
  The struct \<^verbatim>\<open>ServiceConfig\<close>. The fields \<^verbatim>\<open>Service\<close>, \<^verbatim>\<open>Message\<close> and
  \<^verbatim>\<open>Details\<close> carry the prefix \<open>Cfg\<close>, because \<^verbatim>\<open>VerificationResult\<close> has fields of
  the same names. \<^verbatim>\<open>Headers\<close> is a Go map; it is kept as an association list with
  distinct keys, and every iteration over it goes through the iteration order of the run.
\<close>

record ServiceConfig =
  Name :: string
  Method :: string
  URL :: string
  Headers :: "(string \<times> string) list"
  AuthType :: string
  AuthUser :: string
  AuthPass :: string
  SuccessStatus :: int
  ResponseType :: string
  ResponseFields :: "string list"
  DetailsFormat :: string
  SuccessField :: string
  ErrorField :: string
  RequiresSecret :: bool
  SecretName :: string
  SDKType :: string
  CfgService :: string
  Operation :: string
  CfgMessage :: string
  CfgDetails :: string

text \<open>The struct \<^verbatim>\<open>VerificationResult\<close>.\<close>

record VerificationResult =
  Service :: string
  Key :: string
  Valid :: bool
  Message :: string
  Details :: string
  Timestamp :: string

text \<open>
  What \<^verbatim>\<open>json.Unmarshal\<close> stores in an \<^verbatim>\<open>interface{}\<close>: \<^verbatim>\<open>nil\<close>, \<^verbatim>\<open>bool\<close>,
  \<^verbatim>\<open>float64\<close>, \<^verbatim>\<open>string\<close>, \<^verbatim>\<open>[]interface{}\<close> and \<^verbatim>\<open>map[string]interface{}\<close>.
  The type parameter \<open>'f\<close> stands for \<^verbatim>\<open>float64\<close>, which is not interpreted. A Go map
  is an association list with distinct keys; the order of the list carries no meaning.
\<close>

datatype 'f json =
    JNull
  | JBool bool
  | JNumber 'f
  | JString string
  | JArray "'f json list"
  | JObject "(string \<times> 'f json) list"

text \<open>An HTTP request as \<^verbatim>\<open>verifyHTTP\<close> builds it.\<close>

record request =
  req_method :: string
  req_url :: string
  req_header :: "(string \<times> string) list"

text \<open>The calls by which a verification reaches outside the process, in order.\<close>

datatype io_event =
    HTTPDo request
  | AWSLoadConfig string string
  | STSGetCallerIdentity string string

text \<open>
  The functions of the Go standard library that the program calls and that depend on
  their arguments only. They are parameters of the model: \<open>toLower\<close> is
  \<^verbatim>\<open>strings.ToLower\<close>, \<open>sprint_v\<close> is \<^verbatim>\<open>fmt.Sprintf("%v", v)\<close>, \<open>tmpl_parse\<close> is
  \<^verbatim>\<open>template.New("tmpl").Parse\<close>, \<open>tmpl_exec\<close> is \<^verbatim>\<open>Execute\<close> into a fresh buffer,
  \<open>json_unmarshal\<close> is \<^verbatim>\<open>json.Unmarshal\<close> into a \<^verbatim>\<open>map[string]interface{}\<close>,
  \<open>new_request\<close> gives the error of \<^verbatim>\<open>http.NewRequest\<close> if there is one,
  \<open>canonical_key\<close> is the canonical form of a header name used by \<^verbatim>\<open>Header.Set\<close>, and
  \<open>basic_auth\<close> is the value that \<^verbatim>\<open>SetBasicAuth\<close> puts into the \<^verbatim>\<open>Authorization\<close>
  header. An error is its text, on the left of a sum.
\<close>

record ('f, 't) golib =
  toLower :: "string \<Rightarrow> string"
  sprint_v :: "'f json \<Rightarrow> string"
  tmpl_parse :: "string \<Rightarrow> string + 't"
  tmpl_exec :: "'t \<Rightarrow> (string \<rightharpoonup> string) \<Rightarrow> string + string"
  json_unmarshal :: "string \<Rightarrow> string + (string \<times> 'f json) list"
  new_request :: "string \<Rightarrow> string \<Rightarrow> string option"
  canonical_key :: "string \<Rightarrow> string"
  basic_auth :: "string \<Rightarrow> string \<Rightarrow> string"

text \<open>
  What may differ from one call of the program to the next: the clock (\<open>now\<close> is
  \<^verbatim>\<open>time.Now().Format(time.RFC3339)\<close>), the random user agent (\<open>uarand n\<close> is the result
  of the \<open>n\<close>-th call of \<^verbatim>\<open>uarand.GetRandom\<close>), the order in which \<^verbatim>\<open>range\<close> visits
  the entries of a map (\<open>range_json\<close>, \<open>range_headers\<close>), the HTTP transport
  (\<open>http_do\<close> is \<^verbatim>\<open>client.Do\<close> followed by \<^verbatim>\<open>io.ReadAll\<close>: a transport error, or the
  status code and the body) and the AWS SDK (\<open>aws_load_config\<close> gives the error of
  \<^verbatim>\<open>config.LoadDefaultConfig\<close> if there is one, \<open>sts_get_caller_identity\<close> the error
  of \<^verbatim>\<open>GetCallerIdentity\<close> or the optional account and ARN of its response).
\<close>

record 'f world =
  now :: string
  uarand :: "nat \<Rightarrow> string"
  range_json :: "(string \<times> 'f json) list \<Rightarrow> (string \<times> 'f json) list"
  range_headers :: "(string \<times> string) list \<Rightarrow> (string \<times> string) list"
  http_do :: "request \<Rightarrow> string + (int \<times> string)"
  aws_load_config :: "string \<Rightarrow> string \<Rightarrow> string option"
  sts_get_caller_identity :: "string \<Rightarrow> string \<Rightarrow> string + (string option \<times> string option)"

text \<open>A run visits every entry of a map, and no other.\<close>

definition visits_all :: "'f world \<Rightarrow> bool" where
  "visits_all w \<longleftrightarrow> (\<forall>m. set (range_json w m) = set m)"

section \<open>The operations\<close>

subsection \<open>\<^verbatim>\<open>maskKey\<close>\<close>

definition maskKey :: "string \<Rightarrow> string" where
  "maskKey key =
     (if length key \<le> 8 then ''****''
      else take 4 key @ replicate (length key - 8) CHR ''*'' @ drop (length key - 4) key)"

subsection \<open>\<^verbatim>\<open>renderTemplate\<close>\<close>

definition renderTemplate :: "('f, 't) golib \<Rightarrow> string \<Rightarrow> (string \<rightharpoonup> string) \<Rightarrow> string" where
  "renderTemplate l tmpl data =
     (case tmpl_parse l tmpl of
        Inl err \<Rightarrow> tmpl
      | Inr t \<Rightarrow>
          (case tmpl_exec l t data of
             Inl err \<Rightarrow> tmpl
           | Inr buf \<Rightarrow> buf))"

subsection \<open>\<^verbatim>\<open>flattenJSON\<close>\<close>

text \<open>The body of the inner loop: one child of an object-valued entry.\<close>

definition flatten_child ::
  "string \<Rightarrow> string \<times> 'f json \<Rightarrow> (string \<rightharpoonup> string) \<Rightarrow> (string \<rightharpoonup> string)" where
  "flatten_child key = (\<lambda>(subKey, subValue) result.
     (case subValue of
        JString str \<Rightarrow> result(key @ ''.'' @ subKey \<mapsto> str)
      | _ \<Rightarrow> result))"

text \<open>The body of the outer loop: the type switch on one top-level entry.\<close>

definition flatten_entry ::
  "'f world \<Rightarrow> ('f json \<Rightarrow> string) \<Rightarrow> string \<times> 'f json \<Rightarrow> (string \<rightharpoonup> string) \<Rightarrow> (string \<rightharpoonup> string)" where
  "flatten_entry w fmtv = (\<lambda>(key, v) result.
     (case v of
        JString s \<Rightarrow> result(key \<mapsto> s)
      | JObject m \<Rightarrow> fold (flatten_child key) (range_json w m) result
      | _ \<Rightarrow> result(key \<mapsto> fmtv v)))"

definition flattenJSON ::
  "'f world \<Rightarrow> ('f json \<Rightarrow> string) \<Rightarrow> (string \<times> 'f json) list \<Rightarrow> (string \<rightharpoonup> string)" where
  "flattenJSON w fmtv data = fold (flatten_entry w fmtv) (range_json w data) Map.empty"

text \<open>
  What the specification says the flattened map holds, entry by entry: a top-level string under
  its key, the string-valued children of a top-level object under \<open>parent.child\<close>, and
  the formatted value of every other top-level value under its key. This list follows the
  specification; \<open>flattenJSON\<close> above follows the source.
\<close>

definition child_entries :: "string \<Rightarrow> string \<times> 'f json \<Rightarrow> (string \<times> string) list" where
  "child_entries key = (\<lambda>(subKey, subValue).
     (case subValue of JString str \<Rightarrow> [(key @ ''.'' @ subKey, str)] | _ \<Rightarrow> []))"

definition entry_entries :: "('f json \<Rightarrow> string) \<Rightarrow> string \<times> 'f json \<Rightarrow> (string \<times> string) list" where
  "entry_entries fmtv = (\<lambda>(key, v).
     (case v of
        JString s \<Rightarrow> [(key, s)]
      | JObject m \<Rightarrow> concat (map (child_entries key) m)
      | _ \<Rightarrow> [(key, fmtv v)]))"

definition flat_entries :: "('f json \<Rightarrow> string) \<Rightarrow> (string \<times> 'f json) list \<Rightarrow> (string \<times> string) list" where
  "flat_entries fmtv data = concat (map (entry_entries fmtv) data)"

text \<open>The values of the default branch of the type switch in \<^verbatim>\<open>flattenJSON\<close>.\<close>

definition stringified :: "'f json \<Rightarrow> bool" where
  "stringified v =
     (case v of JNull \<Rightarrow> True | JBool b \<Rightarrow> True | JNumber n \<Rightarrow> True | JArray xs \<Rightarrow> True
      | JString s \<Rightarrow> False | JObject m \<Rightarrow> False)"

text \<open>Every entry of the object that is written to the path \<open>p\<close> carries the value \<open>s\<close>.\<close>

definition unshared :: "('f json \<Rightarrow> string) \<Rightarrow> (string \<times> 'f json) list \<Rightarrow> string \<Rightarrow> string \<Rightarrow> bool" where
  "unshared fmtv data p s = list_all (\<lambda>(p', s'). p' = p \<longrightarrow> s' = s) (flat_entries fmtv data)"

text \<open>No two entries of the object are written to the same path with different values.\<close>

definition collision_free :: "('f json \<Rightarrow> string) \<Rightarrow> (string \<times> 'f json) list \<Rightarrow> bool" where
  "collision_free fmtv data =
     list_all (\<lambda>(p, s). unshared fmtv data p s) (flat_entries fmtv data)"

subsection \<open>Helpers of the standard library with a fixed meaning\<close>

text \<open>\<^verbatim>\<open>strings.Contains(s, substr)\<close>: \<open>substr\<close> occurs in \<open>s\<close> as a contiguous block.\<close>

fun Contains :: "string \<Rightarrow> string \<Rightarrow> bool" where
  "Contains [] substr = (substr = [])"
| "Contains (c # cs) substr = (prefix substr (c # cs) \<or> Contains cs substr)"

text \<open>The verb \<^verbatim>\<open>%d\<close> of \<^verbatim>\<open>fmt.Sprintf\<close> on an \<^verbatim>\<open>int\<close>: decimal digits, with a sign if negative.\<close>

fun digits :: "nat \<Rightarrow> string" where
  "digits n =
     (if n < 10 then [''0123456789'' ! n]
      else digits (n div 10) @ [''0123456789'' ! (n mod 10)])"

declare digits.simps [simp del]

definition sprint_d :: "int \<Rightarrow> string" where
  "sprint_d i = (if i < 0 then ''-'' @ digits (nat (- i)) else digits (nat i))"

subsection \<open>\<^verbatim>\<open>verifyAWS\<close>\<close>

definition sts_error_message :: "string \<Rightarrow> string" where
  "sts_error_message err =
     (if Contains err ''InvalidClientTokenId'' then ''invalid credentials (access key not found)''
      else if Contains err ''SignatureDoesNotMatch'' then ''invalid credentials (incorrect secret key)''
      else ''verification failed: '' @ err)"

definition verifyAWS ::
  "'f world \<Rightarrow> string \<Rightarrow> string \<Rightarrow> VerificationResult \<Rightarrow> VerificationResult \<times> io_event list" where
  "verifyAWS w accessKey secretKey result =
     (if secretKey = '''' then
        (if prefix ''AKIA'' accessKey \<and> length accessKey = 20 then
           (result\<lparr>Valid := False,
                   Message := ''key format valid but secret key required'',
                   Details := ''use: roq -s aws -k AKIA... -secret YOUR_SECRET_KEY''\<rparr>, [])
         else
           (result\<lparr>Valid := False, Message := ''invalid aws access key format''\<rparr>, []))
      else
        (case aws_load_config w accessKey secretKey of
           Some err \<Rightarrow>
             (result\<lparr>Valid := False, Message := ''failed to create aws config: '' @ err\<rparr>,
              [AWSLoadConfig accessKey secretKey])
         | None \<Rightarrow>
             (case sts_get_caller_identity w accessKey secretKey of
                Inl err \<Rightarrow>
                  (result\<lparr>Valid := False, Message := sts_error_message err\<rparr>,
                   [AWSLoadConfig accessKey secretKey, STSGetCallerIdentity accessKey secretKey])
              | Inr (account, arn) \<Rightarrow>
                  ((case (account, arn) of
                      (Some a, Some b) \<Rightarrow>
                        result\<lparr>Valid := True, Message := ''valid'',
                               Details := ''account: '' @ a @ '', arn: '' @ b\<rparr>
                    | _ \<Rightarrow> result\<lparr>Valid := True, Message := ''valid''\<rparr>),
                   [AWSLoadConfig accessKey secretKey, STSGetCallerIdentity accessKey secretKey]))))"

subsection \<open>\<^verbatim>\<open>verifyHTTP\<close>\<close>

text \<open>\<^verbatim>\<open>req.Header.Set(k, v)\<close>.\<close>

definition set_header :: "('f, 't) golib \<Rightarrow> string \<Rightarrow> string \<Rightarrow> request \<Rightarrow> request" where
  "set_header l k v req = req\<lparr>req_header := AList.update (canonical_key l k) v (req_header req)\<rparr>"

text \<open>
  Lines 306 to 326, once \<^verbatim>\<open>http.NewRequest\<close> has succeeded: the rendered URL, one
  rendered value per configured header with a fresh user agent each, and the basic
  authentication.
\<close>

definition build_request :: "('f, 't) golib \<Rightarrow> 'f world \<Rightarrow> ServiceConfig \<Rightarrow> string \<Rightarrow> request" where
  "build_request l w serviceConfig key =
     (let url = renderTemplate l (URL serviceConfig) [''Key'' \<mapsto> key];
          req = \<lparr>req_method = Method serviceConfig, req_url = url, req_header = []\<rparr>;
          req' = fold (\<lambda>(n, headerKey, headerValue).
                    set_header l headerKey
                      (renderTemplate l headerValue [''Key'' \<mapsto> key, ''UserAgent'' \<mapsto> uarand w n]))
                  (enumerate 0 (range_headers w (Headers serviceConfig))) req
      in if AuthType serviceConfig = ''basic'' then
           set_header l ''Authorization''
             (basic_auth l (renderTemplate l (AuthUser serviceConfig) [''Key'' \<mapsto> key])
                           (renderTemplate l (AuthPass serviceConfig) [''Key'' \<mapsto> key])) req'
         else req')"

text \<open>Lines 342 to 348: the configured error field, when the body has it as a non-empty string.\<close>

definition error_message :: "ServiceConfig \<Rightarrow> (string \<times> 'f json) list \<Rightarrow> string option" where
  "error_message serviceConfig jsonResp =
     (if ErrorField serviceConfig \<noteq> '''' then
        (case map_of jsonResp (ErrorField serviceConfig) of
           Some (JString errMsg) \<Rightarrow> if errMsg \<noteq> '''' then Some errMsg else None
         | _ \<Rightarrow> None)
      else None)"

text \<open>Lines 352 to 356 and 372 to 376: the positive verdict with its optional details.\<close>

definition valid_result ::
  "('f, 't) golib \<Rightarrow> ServiceConfig \<Rightarrow> (string \<rightharpoonup> string) \<Rightarrow> VerificationResult \<Rightarrow> VerificationResult" where
  "valid_result l serviceConfig flattened result =
     (if DetailsFormat serviceConfig \<noteq> '''' then
        result\<lparr>Valid := True, Message := ''valid'',
               Details := renderTemplate l (DetailsFormat serviceConfig) flattened\<rparr>
      else result\<lparr>Valid := True, Message := ''valid''\<rparr>)"

text \<open>
  Lines 337 to 397: the verdict from the status code and the body. The source tests
  \<^verbatim>\<open>resp.StatusCode == serviceConfig.SuccessStatus\<close> and then its negation; the two
  tests are the two branches of the outer conditional here.
\<close>

definition interpret_response ::
  "('f, 't) golib \<Rightarrow> 'f world \<Rightarrow> ServiceConfig \<Rightarrow> VerificationResult \<Rightarrow> int \<Rightarrow> string \<Rightarrow> VerificationResult" where
  "interpret_response l w serviceConfig result statusCode body =
     (if statusCode = SuccessStatus serviceConfig then
        (if ResponseType serviceConfig = ''json'' \<and> length (ResponseFields serviceConfig) > 0 then
           (case json_unmarshal l body of
              Inr jsonResp \<Rightarrow>
                (case error_message serviceConfig jsonResp of
                   Some errMsg \<Rightarrow> result\<lparr>Valid := False, Message := toLower l errMsg\<rparr>
                 | None \<Rightarrow>
                     (if SuccessField serviceConfig \<noteq> '''' then
                        (if map_of jsonResp (SuccessField serviceConfig) = Some (JBool True) then
                           valid_result l serviceConfig (flattenJSON w (sprint_v l) jsonResp) result
                         else result\<lparr>Valid := False, Message := ''invalid key''\<rparr>)
                      else
                        (let flattened = flattenJSON w (sprint_v l) jsonResp;
                             hasData = list_ex (\<lambda>field. flattened field \<noteq> None)
                                         (ResponseFields serviceConfig)
                         in if hasData then valid_result l serviceConfig flattened result
                            else result\<lparr>Valid := False, Message := ''invalid key''\<rparr>)))
            | Inl err \<Rightarrow> result\<lparr>Valid := False, Message := ''invalid response format''\<rparr>)
         else result\<lparr>Valid := True, Message := ''valid''\<rparr>)
      else result\<lparr>Valid := False, Message := ''invalid (http '' @ sprint_d statusCode @ '')''\<rparr>)"

definition verifyHTTP ::
  "('f, 't) golib \<Rightarrow> 'f world \<Rightarrow> ServiceConfig \<Rightarrow> string \<Rightarrow> VerificationResult \<Rightarrow>
     VerificationResult \<times> io_event list" where
  "verifyHTTP l w serviceConfig key result =
     (case new_request l (Method serviceConfig)
             (renderTemplate l (URL serviceConfig) [''Key'' \<mapsto> key]) of
        Some err \<Rightarrow> (result\<lparr>Valid := False, Message := ''failed to create request''\<rparr>, [])
      | None \<Rightarrow>
          (let req = build_request l w serviceConfig key in
           (case http_do w req of
              Inl err \<Rightarrow>
                (result\<lparr>Valid := False, Message := ''request failed: '' @ err\<rparr>, [HTTPDo req])
            | Inr (statusCode, body) \<Rightarrow>
                (interpret_response l w serviceConfig result statusCode body, [HTTPDo req]))))"

subsection \<open>\<^verbatim>\<open>verifyAPIKey\<close>\<close>

text \<open>
  The catalog \<^verbatim>\<open>servicesConfig.Services\<close> is read from \<^verbatim>\<open>services.yaml\<close> when the
  program starts; it is a parameter here.
\<close>

definition verifyAPIKey ::
  "('f, 't) golib \<Rightarrow> 'f world \<Rightarrow> (string \<rightharpoonup> ServiceConfig) \<Rightarrow> string \<Rightarrow> string \<Rightarrow> string \<Rightarrow>
     VerificationResult \<times> io_event list" where
  "verifyAPIKey l w services service key secret =
     (case services (toLower l service) of
        None \<Rightarrow>
          (\<lparr>Service = toLower l service, Key = '''', Valid = False,
            Message = ''unsupported service: '' @ service, Details = '''',
            Timestamp = now w\<rparr>, [])
      | Some serviceConfig \<Rightarrow>
          (let result = \<lparr>Service = toLower l (Name serviceConfig), Key = maskKey key,
                         Valid = False, Message = '''', Details = '''', Timestamp = now w\<rparr>;
               not_implemented =
                 (result\<lparr>Valid := False, Message := ''verification method not implemented''\<rparr>, [])
           in if Method serviceConfig = ''GET'' \<or> Method serviceConfig = ''POST'' then
                verifyHTTP l w serviceConfig key result
              else if Method serviceConfig = ''SDK'' then
                (if SDKType serviceConfig = ''aws'' then verifyAWS w key secret result
                 else not_implemented)
              else if Method serviceConfig = ''MANUAL'' then
                (result\<lparr>Valid := False,
                        Message := toLower l (CfgMessage serviceConfig),
                        Details := toLower l (CfgDetails serviceConfig)\<rparr>, [])
              else not_implemented))"

section \<open>Sample library, runs and catalog\<close>

text \<open>
  Concrete instances of the parameters, on which the model is evaluated in the examples
  below. They give what the Go library gives on the inputs of the examples and are not
  meant beyond them.
\<close>

fun join_space :: "string list \<Rightarrow> string" where
  "join_space [] = ''''"
| "join_space [x] = x"
| "join_space (x # y # ys) = x @ '' '' @ join_space (y # ys)"

text \<open>
  \<^verbatim>\<open>%v\<close> on decoded JSON whose numbers are small natural numbers and whose maps are
  listed in key order.
\<close>

fun sprint_sample :: "nat json \<Rightarrow> string" where
  "sprint_sample JNull = ''<nil>''"
| "sprint_sample (JBool b) = (if b then ''true'' else ''false'')"
| "sprint_sample (JNumber n) = digits n"
| "sprint_sample (JString s) = s"
| "sprint_sample (JArray xs) = ''['' @ join_space (map sprint_sample xs) @ '']''"
| "sprint_sample (JObject m) =
     ''map['' @ join_space (map (\<lambda>e. fst e @ '':'' @ sprint_sample (snd e)) m) @ '']''"

text \<open>\<^verbatim>\<open>strings.ToLower\<close> on ASCII text.\<close>

definition lower_char :: "char \<Rightarrow> char" where
  "lower_char c =
     (case map_of (zip ''ABCDEFGHIJKLMNOPQRSTUVWXYZ'' ''abcdefghijklmnopqrstuvwxyz'') c of
        Some d \<Rightarrow> d
      | None \<Rightarrow> c)"

definition field_of :: "(string \<rightharpoonup> string) \<Rightarrow> string \<Rightarrow> string" where
  "field_of data k = (case data k of Some v \<Rightarrow> v | None \<Rightarrow> '''')"

text \<open>
  \<^verbatim>\<open>text/template\<close> on the templates of the examples: \<open>{{.Key}\<close> is malformed, and
  \<open>{{.user.name}}\<close> cannot be executed on a map of strings, since the string under \<open>user\<close>
  has no field.
\<close>

definition sample_parse :: "string \<Rightarrow> string + string" where
  "sample_parse tmpl =
     (if tmpl = ''{{.Key}'' then Inl ''template: tmpl:1: unclosed action'' else Inr tmpl)"

definition sample_exec :: "string \<Rightarrow> (string \<rightharpoonup> string) \<Rightarrow> string + string" where
  "sample_exec t data =
     (if t = ''{{.user.name}}'' then Inl ''template: tmpl:1:7: cannot evaluate field name''
      else if t = ''user: {{.login}}'' then Inr (''user: '' @ field_of data ''login'')
      else if t = ''token {{.Key}}'' then Inr (''token '' @ field_of data ''Key'')
      else if t = ''{{.UserAgent}}'' then Inr (field_of data ''UserAgent'')
      else if t = ''{{index . `b.c`}}'' then Inr (field_of data ''b.c'')
      else Inr t)"

text \<open>\<^verbatim>\<open>json.Unmarshal\<close> on the bodies of the examples.\<close>

definition sample_unmarshal :: "string \<Rightarrow> string + (string \<times> nat json) list" where
  \<open>sample_unmarshal body =
     (if body = ''{"login":"octocat","name":"The Octocat"}'' then
        Inr [(''login'', JString ''octocat''), (''name'', JString ''The Octocat'')]
      else if body = ''{"ok":true,"error":"Token_Revoked"}'' then
        Inr [(''ok'', JBool True), (''error'', JString ''Token_Revoked'')]
      else if body = ''{"b.c":"x","b":{"c":"y"}}'' then
        Inr [(''b.c'', JString ''x''), (''b'', JObject [(''c'', JString ''y'')])]
      else Inl ''invalid character'')\<close>

definition sample_lib :: "(nat, string) golib" where
  "sample_lib =
     \<lparr>toLower = map lower_char, sprint_v = sprint_sample,
      tmpl_parse = sample_parse, tmpl_exec = sample_exec,
      json_unmarshal = sample_unmarshal,
      new_request = (\<lambda>method url. None),
      canonical_key = (\<lambda>k. k),
      basic_auth = (\<lambda>user pass. ''Basic '' @ user @ '':'' @ pass)\<rparr>"

text \<open>
  A run with a given iteration order of maps, a transport that answers every request with
  the given outcome, and an STS call with the given outcome.
\<close>

definition sample_world ::
  "((string \<times> nat json) list \<Rightarrow> (string \<times> nat json) list) \<Rightarrow> string + int \<times> string \<Rightarrow>
     string + string option \<times> string option \<Rightarrow> nat world" where
  "sample_world order outcome identity =
     \<lparr>now = ''2024-05-01T12:00:00Z'', uarand = (\<lambda>n. ''agent/'' @ digits n),
      range_json = order, range_headers = (\<lambda>h. h),
      http_do = (\<lambda>req. outcome),
      aws_load_config = (\<lambda>accessKey secretKey. None),
      sts_get_caller_identity = (\<lambda>accessKey secretKey. identity)\<rparr>"

text \<open>The zero value of \<^verbatim>\<open>ServiceConfig\<close>, and catalog entries built from it.\<close>

definition zero_config :: ServiceConfig where
  "zero_config =
     \<lparr>Name = '''', Method = '''', URL = '''', Headers = [], AuthType = '''', AuthUser = '''',
      AuthPass = '''', SuccessStatus = 0, ResponseType = '''', ResponseFields = [],
      DetailsFormat = '''', SuccessField = '''', ErrorField = '''', RequiresSecret = False,
      SecretName = '''', SDKType = '''', CfgService = '''', Operation = '''',
      CfgMessage = '''', CfgDetails = ''''\<rparr>"

definition github_config :: ServiceConfig where
  "github_config =
     zero_config\<lparr>Name := ''GitHub'', Method := ''GET'', URL := ''https://api.github.com/user'',
       Headers := [(''Authorization'', ''token {{.Key}}''), (''User-Agent'', ''{{.UserAgent}}'')],
       SuccessStatus := 200, ResponseType := ''json'', ResponseFields := [''login'', ''name''],
       DetailsFormat := ''user: {{.login}}'', ErrorField := ''message''\<rparr>"

definition flagged_config :: ServiceConfig where
  "flagged_config =
     zero_config\<lparr>Name := ''Flagged'', Method := ''POST'', URL := ''https://example.test/auth'',
       SuccessStatus := 200, ResponseType := ''json'', ResponseFields := [''user''],
       SuccessField := ''ok'', ErrorField := ''error''\<rparr>"

definition fieldless_config :: ServiceConfig where
  "fieldless_config = flagged_config\<lparr>Name := ''Fieldless'', ResponseFields := []\<rparr>"

definition dotted_config :: ServiceConfig where
  "dotted_config =
     zero_config\<lparr>Name := ''Dotted'', Method := ''GET'', URL := ''https://example.test/me'',
       SuccessStatus := 200, ResponseType := ''json'', ResponseFields := [''b.c''],
       DetailsFormat := ''{{index . `b.c`}}''\<rparr>"

definition aws_config :: ServiceConfig where
  "aws_config = zero_config\<lparr>Name := ''AWS'', Method := ''SDK'', SDKType := ''aws''\<rparr>"

definition sample_services :: "string \<rightharpoonup> ServiceConfig" where
  "sample_services =
     [''github'' \<mapsto> github_config, ''flagged'' \<mapsto> flagged_config,
      ''fieldless'' \<mapsto> fieldless_config, ''dotted'' \<mapsto> dotted_config, ''aws'' \<mapsto> aws_config]"

definition sample_result :: VerificationResult where
  "sample_result =
     \<lparr>Service = ''sample'', Key = ''****'', Valid = False, Message = '''',
      Details = '''', Timestamp = ''2024-05-01T12:00:00Z''\<rparr>"

definition sample_body :: "(string \<times> nat json) list" where
  "sample_body =
     [(''a'', JString ''x''),
      (''b'', JObject [(''c'', JString ''y''), (''d'', JNumber 5), (''e'', JArray [JNumber 1])]),
      (''n'', JNumber 5), (''ok'', JBool True), (''none'', JNull),
      (''tags'', JArray [JString ''p'', JNumber 7])]"

definition colliding_body :: "(string \<times> nat json) list" where
  "colliding_body = [(''b.c'', JString ''x''), (''b'', JObject [(''c'', JString ''y'')])]"

section \<open>Credential masking\<close>

text \<open>
  C2. A credential of at most 8 bytes is masked to the placeholder \<open>****\<close>. A longer one
  keeps its first 4 and its last 4 bytes with \<open>length key - 8\<close> asterisks between them, so
  the masked credential is as long as the credential.
\<close>

theorem maskKey_shape:
  "(length key \<le> 8 \<longrightarrow> maskKey key = ''****'') \<and>
   (8 < length key \<longrightarrow>
      maskKey key = take 4 key @ replicate (length key - 8) CHR ''*'' @ drop (length key - 4) key \<and>
      take 4 (maskKey key) = take 4 key \<and>
      drop (length key - 4) (maskKey key) = drop (length key - 4) key \<and>
      take (length key - 8) (drop 4 (maskKey key)) = replicate (length key - 8) CHR ''*'' \<and>
      length (maskKey key) = length key)"
  by (auto simp: maskKey_def)

theorem maskKey_shape_witness:
  "length ''abcd1234'' \<le> 8 \<and> maskKey ''abcd1234'' = ''****'' \<and>
   8 < length ''ghp_0123456789'' \<and> maskKey ''ghp_0123456789'' = ''ghp_******6789'' \<and>
   length (maskKey ''ghp_0123456789'') = length ''ghp_0123456789''"
  using maskKey_shape [of "''abcd1234''"] maskKey_shape [of "''ghp_0123456789''"]
  by simp

section \<open>Template rendering\<close>

text \<open>
  C4. \<open>renderTemplate\<close> always returns a string: the template itself when parsing fails,
  the template itself when execution fails, and the output of the execution otherwise. In
  particular, \<open>{{.Key}\<close> is returned unchanged for the variables \<open>Key = abc\<close>, since
  \<^verbatim>\<open>text/template\<close> rejects it (the action is not closed); the parser is a parameter, so
  its failure on this input is the premise of the last part.
\<close>

theorem renderTemplate_fallback:
  "(\<forall>err. tmpl_parse l tmpl = Inl err \<longrightarrow> renderTemplate l tmpl data = tmpl) \<and>
   (\<forall>t err. tmpl_parse l tmpl = Inr t \<and> tmpl_exec l t data = Inl err \<longrightarrow>
      renderTemplate l tmpl data = tmpl) \<and>
   (\<forall>t buf. tmpl_parse l tmpl = Inr t \<and> tmpl_exec l t data = Inr buf \<longrightarrow>
      renderTemplate l tmpl data = buf) \<and>
   (\<forall>err. tmpl_parse l ''{{.Key}'' = Inl err \<longrightarrow>
      renderTemplate l ''{{.Key}'' [''Key'' \<mapsto> ''abc''] = ''{{.Key}'')"
  by (simp add: renderTemplate_def)

theorem renderTemplate_fallback_witness:
  "tmpl_parse sample_lib ''{{.Key}'' = Inl ''template: tmpl:1: unclosed action'' \<and>
   renderTemplate sample_lib ''{{.Key}'' [''Key'' \<mapsto> ''abc''] = ''{{.Key}'' \<and>
   tmpl_parse sample_lib ''{{.user.name}}'' = Inr ''{{.user.name}}'' \<and>
   tmpl_exec sample_lib ''{{.user.name}}'' [''user'' \<mapsto> ''octocat''] =
     Inl ''template: tmpl:1:7: cannot evaluate field name'' \<and>
   renderTemplate sample_lib ''{{.user.name}}'' [''user'' \<mapsto> ''octocat''] = ''{{.user.name}}'' \<and>
   tmpl_parse sample_lib ''user: {{.login}}'' = Inr ''user: {{.login}}'' \<and>
   tmpl_exec sample_lib ''user: {{.login}}'' [''login'' \<mapsto> ''octocat''] = Inr ''user: octocat'' \<and>
   renderTemplate sample_lib ''user: {{.login}}'' [''login'' \<mapsto> ''octocat''] = ''user: octocat''"
proof -
  have p: "tmpl_parse sample_lib ''{{.Key}'' = Inl ''template: tmpl:1: unclosed action''"
    by (simp add: sample_lib_def sample_parse_def)
  have q: "tmpl_parse sample_lib ''user: {{.login}}'' = Inr ''user: {{.login}}''"
    "tmpl_parse sample_lib ''{{.user.name}}'' = Inr ''{{.user.name}}''"
    by (simp_all add: sample_lib_def sample_parse_def)
  have r: "tmpl_exec sample_lib ''user: {{.login}}'' [''login'' \<mapsto> ''octocat''] = Inr ''user: octocat''"
    by (simp add: sample_lib_def sample_exec_def field_of_def)
  have e: "tmpl_exec sample_lib ''{{.user.name}}'' [''user'' \<mapsto> ''octocat''] =
      Inl ''template: tmpl:1:7: cannot evaluate field name''"
    by (simp add: sample_lib_def sample_exec_def)
  from renderTemplate_fallback [of sample_lib "''{{.Key}''" "[''Key'' \<mapsto> ''abc'']"] p
  have a: "renderTemplate sample_lib ''{{.Key}'' [''Key'' \<mapsto> ''abc''] = ''{{.Key}''"
    by blast
  from renderTemplate_fallback [of sample_lib "''user: {{.login}}''" "[''login'' \<mapsto> ''octocat'']"]
    q(1) r
  have b: "renderTemplate sample_lib ''user: {{.login}}'' [''login'' \<mapsto> ''octocat''] = ''user: octocat''"
    by blast
  from renderTemplate_fallback [of sample_lib "''{{.user.name}}''" "[''user'' \<mapsto> ''octocat'']"]
    q(2) e
  have c: "renderTemplate sample_lib ''{{.user.name}}'' [''user'' \<mapsto> ''octocat''] = ''{{.user.name}}''"
    by blast
  show ?thesis using p q r e a b c by simp
qed

section \<open>Flattening\<close>

subsection \<open>The loops of \<^verbatim>\<open>flattenJSON\<close> against the list of entries\<close>

lemma flatten_child_Some:
  "flatten_child key c r p = Some s \<Longrightarrow> r p = Some s \<or> (p, s) \<in> set (child_entries key c)"
  by (cases c; cases "snd c")
     (simp_all add: flatten_child_def child_entries_def split: if_splits)

lemma flatten_child_dom:
  "dom (flatten_child key c r) = dom r \<union> fst ` set (child_entries key c)"
  by (cases c; cases "snd c")
     (simp_all add: flatten_child_def child_entries_def)

lemma fold_child_Some:
  "fold (flatten_child key) xs r p = Some s \<Longrightarrow>
     r p = Some s \<or> (p, s) \<in> set (concat (map (child_entries key) xs))"
proof (induction xs arbitrary: r)
  case Nil
  then show ?case by simp
next
  case (Cons c xs)
  from Cons.prems have "fold (flatten_child key) xs (flatten_child key c r) p = Some s"
    by simp
  from Cons.IH [OF this] flatten_child_Some [of key c r p s] show ?case
    by auto
qed

lemma fold_child_dom:
  "dom (fold (flatten_child key) xs r) = dom r \<union> fst ` set (concat (map (child_entries key) xs))"
proof (induction xs arbitrary: r)
  case Nil
  then show ?case by simp
next
  case (Cons c xs)
  show ?case
    using Cons.IH [of "flatten_child key c r"] flatten_child_dom [of key c r]
    by auto
qed

lemma child_entries_range:
  "visits_all w \<Longrightarrow>
     set (concat (map (child_entries key) (range_json w m))) = set (concat (map (child_entries key) m))"
  by (simp add: visits_all_def)

lemma flatten_entry_object:
  "flatten_entry w fmtv (key, JObject m) r = fold (flatten_child key) (range_json w m) r"
  by (simp add: flatten_entry_def)

lemma entry_entries_object:
  "entry_entries fmtv (key, JObject m) = concat (map (child_entries key) m)"
  by (simp add: entry_entries_def)

lemma flatten_entry_Some:
  assumes "visits_all w" and "flatten_entry w fmtv e r p = Some s"
  shows "r p = Some s \<or> (p, s) \<in> set (entry_entries fmtv e)"
proof (cases e)
  case (Pair key v)
  show ?thesis
  proof (cases v)
    case (JObject m)
    then have "fold (flatten_child key) (range_json w m) r p = Some s"
      using assms(2) Pair by (simp add: flatten_entry_object)
    then have "r p = Some s \<or> (p, s) \<in> set (concat (map (child_entries key) (range_json w m)))"
      by (rule fold_child_Some)
    then show ?thesis
      unfolding child_entries_range [OF assms(1)] Pair JObject entry_entries_object .
  qed (use assms(2) Pair in \<open>simp_all add: flatten_entry_def entry_entries_def split: if_splits\<close>)
qed

lemma flatten_entry_dom:
  assumes "visits_all w"
  shows "dom (flatten_entry w fmtv e r) = dom r \<union> fst ` set (entry_entries fmtv e)"
proof (cases e)
  case (Pair key v)
  show ?thesis
  proof (cases v)
    case (JObject m)
    show ?thesis
      unfolding Pair JObject flatten_entry_object entry_entries_object fold_child_dom
        child_entries_range [OF assms] ..
  qed (use Pair in \<open>simp_all add: flatten_entry_def entry_entries_def\<close>)
qed

lemma fold_entry_Some:
  assumes "visits_all w"
  shows "fold (flatten_entry w fmtv) xs r p = Some s \<Longrightarrow>
     r p = Some s \<or> (p, s) \<in> set (concat (map (entry_entries fmtv) xs))"
proof (induction xs arbitrary: r)
  case Nil then show ?case by simp
next
  case (Cons e xs)
  from Cons.prems have "fold (flatten_entry w fmtv) xs (flatten_entry w fmtv e r) p = Some s" by simp
  from Cons.IH [OF this] show ?case
    using flatten_entry_Some [OF assms, of fmtv e r p s] by auto
qed

lemma fold_entry_dom:
  assumes "visits_all w"
  shows "dom (fold (flatten_entry w fmtv) xs r) = dom r \<union> fst ` set (concat (map (entry_entries fmtv) xs))"
proof (induction xs arbitrary: r)
  case Nil then show ?case by simp
next
  case (Cons e xs)
  show ?case
    using Cons.IH [of "flatten_entry w fmtv e r"] flatten_entry_dom [OF assms, of fmtv e r]
    by auto
qed

lemma flattenJSON_Some:
  assumes "visits_all w" and "flattenJSON w fmtv data p = Some s"
  shows "(p, s) \<in> set (flat_entries fmtv data)"
proof -
  have "set (concat (map (entry_entries fmtv) (range_json w data))) = set (flat_entries fmtv data)"
    using assms(1) by (simp add: visits_all_def flat_entries_def)
  then show ?thesis
    using fold_entry_Some [OF assms(1), of fmtv "range_json w data" Map.empty p s] assms(2)
    by (simp add: flattenJSON_def)
qed

lemma flattenJSON_dom:
  assumes "visits_all w"
  shows "dom (flattenJSON w fmtv data) = fst ` set (flat_entries fmtv data)"
proof -
  have "set (concat (map (entry_entries fmtv) (range_json w data))) = set (flat_entries fmtv data)"
    using assms(1) by (simp add: visits_all_def flat_entries_def)
  then show ?thesis
    using fold_entry_dom [OF assms(1), of fmtv "range_json w data" Map.empty]
    by (simp add: flattenJSON_def)
qed

lemma unshared_iff:
  "unshared fmtv data p s \<longleftrightarrow> (\<forall>s'. (p, s') \<in> set (flat_entries fmtv data) \<longrightarrow> s' = s)"
  by (auto simp: unshared_def list_all_iff)

lemma collision_free_iff:
  "collision_free fmtv data \<longleftrightarrow>
     (\<forall>p s s'. (p, s) \<in> set (flat_entries fmtv data) \<and> (p, s') \<in> set (flat_entries fmtv data) \<longrightarrow>
        s' = s)"
  by (auto simp: collision_free_def unshared_iff list_all_iff)

lemma flattenJSON_unshared:
  assumes "visits_all w" and "(p, s) \<in> set (flat_entries fmtv data)" and "unshared fmtv data p s"
  shows "flattenJSON w fmtv data p = Some s"
proof -
  have "p \<in> dom (flattenJSON w fmtv data)"
    unfolding flattenJSON_dom [OF assms(1)] using assms(2) by force
  then obtain s' where s': "flattenJSON w fmtv data p = Some s'"
    by blast
  then have "(p, s') \<in> set (flat_entries fmtv data)"
    by (rule flattenJSON_Some [OF assms(1)])
  then have "s' = s"
    using assms(3) by (simp add: unshared_iff)
  then show ?thesis
    using s' by simp
qed

lemma flattenJSON_absent:
  assumes "visits_all w" and "p \<notin> fst ` set (flat_entries fmtv data)"
  shows "flattenJSON w fmtv data p = None"
  using flattenJSON_dom [OF assms(1), of fmtv data] assms(2) by (metis domIff)

lemma flattenJSON_collision_free:
  assumes "visits_all w" and "collision_free fmtv data"
  shows "flattenJSON w fmtv data = map_of (flat_entries fmtv data)"
proof
  fix p
  show "flattenJSON w fmtv data p = map_of (flat_entries fmtv data) p"
  proof (cases "map_of (flat_entries fmtv data) p")
    case None
    then have "p \<notin> fst ` set (flat_entries fmtv data)"
      by (simp add: map_of_eq_None_iff)
    then show ?thesis
      using None flattenJSON_absent [OF assms(1)] by simp
  next
    case (Some s)
    then have m: "(p, s) \<in> set (flat_entries fmtv data)"
      by (rule map_of_SomeD)
    then have "unshared fmtv data p s"
      using assms(2) unfolding collision_free_iff unshared_iff by blast
    then show ?thesis
      using Some flattenJSON_unshared [OF assms(1) m] by simp
  qed
qed

lemma flat_entries_iff:
  "(p, s) \<in> set (flat_entries fmtv data) \<longleftrightarrow>
     (p, JString s) \<in> set data \<or>
     (\<exists>key m subKey. (key, JObject m) \<in> set data \<and> (subKey, JString s) \<in> set m \<and>
        p = key @ ''.'' @ subKey) \<or>
     (\<exists>v. (p, v) \<in> set data \<and> stringified v \<and> s = fmtv v)"
  (is "?L \<longleftrightarrow> ?R")
proof
  assume ?L
  then obtain key v where kv: "(key, v) \<in> set data" and e: "(p, s) \<in> set (entry_entries fmtv (key, v))"
    by (auto simp: flat_entries_def)
  show ?R
  proof (cases v)
    case (JObject m)
    then obtain subKey subValue where "(subKey, subValue) \<in> set m"
      and "(p, s) \<in> set (child_entries key (subKey, subValue))"
      using e by (auto simp: entry_entries_def)
    then have "(subKey, JString s) \<in> set m \<and> p = key @ ''.'' @ subKey"
      by (cases subValue) (simp_all add: child_entries_def)
    then show ?thesis using kv JObject by blast
  qed (use kv e in \<open>auto simp: entry_entries_def stringified_def\<close>)
next
  assume ?R
  then consider (str) "(p, JString s) \<in> set data"
    | (obj) key m subKey where "(key, JObject m) \<in> set data" "(subKey, JString s) \<in> set m"
        "p = key @ ''.'' @ subKey"
    | (other) v where "(p, v) \<in> set data" "stringified v" "s = fmtv v"
    by blast
  then show ?L
  proof cases
    case str
    then show ?thesis
      by (force simp: flat_entries_def entry_entries_def)
  next
    case obj
    have "(p, s) \<in> set (child_entries key (subKey, JString s))"
      using obj(3) by (simp add: child_entries_def)
    then have "(p, s) \<in> set (entry_entries fmtv (key, JObject m))"
      using obj(2) by (auto simp: entry_entries_def)
    then show ?thesis
      using obj(1) by (auto simp: flat_entries_def)
  next
    case other
    then have "(p, s) \<in> set (entry_entries fmtv (p, v))"
      by (cases v) (simp_all add: entry_entries_def stringified_def)
    then show ?thesis
      using other(1) by (auto simp: flat_entries_def)
  qed
qed

lemmas flatten_eval = flattenJSON_def flatten_entry_def flatten_child_def sample_world_def
  sample_body_def colliding_body_def digits.simps

lemmas entries_eval = collision_free_def unshared_def flat_entries_def entry_entries_def
  child_entries_def
  sample_body_def colliding_body_def digits.simps

subsection \<open>What the flattened map holds\<close>

text \<open>
  C3, as stated, at the object \<open>{"b.c": "x", "b": {"c": "y"}}\<close>. The top-level string and
  the child of the object are both written to the path \<open>b.c\<close>, and the entry visited last
  wins. When the map is visited in the listed order the top-level string \<open>x\<close> is not kept
  under its key; when it is visited in the reverse order the child \<open>y\<close> of the object is
  not found under \<open>b.c\<close>.
\<close>

theorem flattenJSON_path_clash:
  "flattenJSON (sample_world id (Inl []) (Inl [])) sprint_sample colliding_body ''b.c'' = Some ''y'' \<and>
   flattenJSON (sample_world rev (Inl []) (Inl [])) sprint_sample colliding_body ''b.c'' = Some ''x''"
  by (simp add: flatten_eval)

text \<open>
  C3, amended. Whatever the order in which the maps are visited, for every JSON object:
  a top-level string is kept under its key, a string-valued child of a top-level object
  is found under \<open>parent.child\<close>, and a top-level number, boolean, null or array is found
  under its key as formatted by \<^verbatim>\<open>%v\<close>, each provided that no entry with another value
  is written to the same path; a path that no entry is written to is absent, so the
  children of an object that are not strings give no entry. When no two entries with
  different values share a path, the flattened map is the map of the listed entries.
\<close>

theorem flattenJSON_entries:
  assumes "visits_all w"
  shows "(\<forall>key s. (key, JString s) \<in> set data \<and> unshared fmtv data key s \<longrightarrow>
        flattenJSON w fmtv data key = Some s) \<and>
    (\<forall>key m subKey s. (key, JObject m) \<in> set data \<and> (subKey, JString s) \<in> set m \<and>
        unshared fmtv data (key @ ''.'' @ subKey) s \<longrightarrow>
        flattenJSON w fmtv data (key @ ''.'' @ subKey) = Some s) \<and>
    (\<forall>key v. (key, v) \<in> set data \<and> stringified v \<and> unshared fmtv data key (fmtv v) \<longrightarrow>
        flattenJSON w fmtv data key = Some (fmtv v)) \<and>
    (\<forall>p. p \<notin> fst ` set (flat_entries fmtv data) \<longrightarrow> flattenJSON w fmtv data p = None) \<and>
    (collision_free fmtv data \<longrightarrow> flattenJSON w fmtv data = map_of (flat_entries fmtv data))"
proof -
  have "flattenJSON w fmtv data key = Some s"
    if "(key, JString s) \<in> set data" "unshared fmtv data key s" for key s
    using that by (intro flattenJSON_unshared [OF assms]) (simp_all add: flat_entries_iff)
  moreover have "flattenJSON w fmtv data (key @ ''.'' @ subKey) = Some s"
    if "(key, JObject m) \<in> set data" "(subKey, JString s) \<in> set m"
      "unshared fmtv data (key @ ''.'' @ subKey) s" for key m subKey s
    using that by (intro flattenJSON_unshared [OF assms]) (auto simp: flat_entries_iff)
  moreover have "flattenJSON w fmtv data key = Some (fmtv v)"
    if "(key, v) \<in> set data" "stringified v" "unshared fmtv data key (fmtv v)" for key v
    using that by (intro flattenJSON_unshared [OF assms]) (auto simp: flat_entries_iff)
  moreover have "flattenJSON w fmtv data p = None"
    if "p \<notin> fst ` set (flat_entries fmtv data)" for p
    using assms that by (rule flattenJSON_absent)
  moreover have "flattenJSON w fmtv data = map_of (flat_entries fmtv data)"
    if "collision_free fmtv data"
    using assms that by (rule flattenJSON_collision_free)
  ultimately show ?thesis
    by blast
qed

theorem flattenJSON_entries_witness:
  "visits_all (sample_world rev (Inl []) (Inl [])) \<and>
   (''a'', JString ''x'') \<in> set sample_body \<and> unshared sprint_sample sample_body ''a'' ''x'' \<and>
   flattenJSON (sample_world rev (Inl []) (Inl [])) sprint_sample sample_body ''a'' = Some ''x'' \<and>
   (''b'', JObject [(''c'', JString ''y''), (''d'', JNumber 5), (''e'', JArray [JNumber 1])])
     \<in> set sample_body \<and>
   (''c'', JString ''y'') \<in>
     set [(''c'', JString ''y''), (''d'', JNumber (5::nat)), (''e'', JArray [JNumber 1])] \<and>
   unshared sprint_sample sample_body ''b.c'' ''y'' \<and>
   flattenJSON (sample_world rev (Inl []) (Inl [])) sprint_sample sample_body ''b.c'' = Some ''y'' \<and>
   (''tags'', JArray [JString ''p'', JNumber 7]) \<in> set sample_body \<and>
   stringified (JArray [JString ''p'', JNumber (7::nat)]) \<and>
   unshared sprint_sample sample_body ''tags'' ''[p 7]'' \<and>
   flattenJSON (sample_world rev (Inl []) (Inl [])) sprint_sample sample_body ''tags'' = Some ''[p 7]'' \<and>
   ''b.d'' \<notin> fst ` set (flat_entries sprint_sample sample_body) \<and>
   flattenJSON (sample_world rev (Inl []) (Inl [])) sprint_sample sample_body ''b.d'' = None \<and>
   collision_free sprint_sample sample_body \<and>
   flattenJSON (sample_world rev (Inl []) (Inl [])) sprint_sample sample_body =
     [''a'' \<mapsto> ''x'', ''b.c'' \<mapsto> ''y'', ''n'' \<mapsto> ''5'', ''ok'' \<mapsto> ''true'', ''none'' \<mapsto> ''<nil>'',
      ''tags'' \<mapsto> ''[p 7]'']"
proof -
  let ?w = "sample_world rev (Inl []) (Inl [])"
  let ?m = "[(''c'', JString ''y''), (''d'', JNumber 5), (''e'', JArray [JNumber (1::nat)])]"
  have v: "visits_all ?w"
    by (simp add: visits_all_def sample_world_def)
  note t = flattenJSON_entries [OF v, of sample_body sprint_sample]
  have a: "(''a'', JString ''x'') \<in> set sample_body" "unshared sprint_sample sample_body ''a'' ''x''"
    by (simp_all add: entries_eval)
  have a': "flattenJSON ?w sprint_sample sample_body ''a'' = Some ''x''"
    using t a by blast
  have b: "(''b'', JObject ?m) \<in> set sample_body" "(''c'', JString ''y'') \<in> set ?m"
    "unshared sprint_sample sample_body (''b'' @ ''.'' @ ''c'') ''y''"
    by (simp_all add: entries_eval)
  have "flattenJSON ?w sprint_sample sample_body (''b'' @ ''.'' @ ''c'') = Some ''y''"
    using t b by blast
  then have b': "flattenJSON ?w sprint_sample sample_body ''b.c'' = Some ''y''"
    by simp
  have g: "(''tags'', JArray [JString ''p'', JNumber 7]) \<in> set sample_body"
    "stringified (JArray [JString ''p'', JNumber (7::nat)])"
    "unshared sprint_sample sample_body ''tags'' (sprint_sample (JArray [JString ''p'', JNumber 7]))"
    by (simp_all add: entries_eval stringified_def)
  have "flattenJSON ?w sprint_sample sample_body ''tags'' =
      Some (sprint_sample (JArray [JString ''p'', JNumber 7]))"
    using t g by blast
  then have g': "flattenJSON ?w sprint_sample sample_body ''tags'' = Some ''[p 7]''"
    by (simp add: digits.simps)
  have n: "''b.d'' \<notin> fst ` set (flat_entries sprint_sample sample_body)"
    by (simp add: entries_eval)
  have n': "flattenJSON ?w sprint_sample sample_body ''b.d'' = None"
    using t n by blast
  have c: "collision_free sprint_sample sample_body"
    by (simp add: entries_eval)
  have "flattenJSON ?w sprint_sample sample_body = map_of (flat_entries sprint_sample sample_body)"
    using t c by blast
  also have "\<dots> = [''a'' \<mapsto> ''x'', ''b.c'' \<mapsto> ''y'', ''n'' \<mapsto> ''5'', ''ok'' \<mapsto> ''true'',
      ''none'' \<mapsto> ''<nil>'', ''tags'' \<mapsto> ''[p 7]'']"
    by (rule ext) (simp add: entries_eval)
  finally have full: "flattenJSON ?w sprint_sample sample_body =
     [''a'' \<mapsto> ''x'', ''b.c'' \<mapsto> ''y'', ''n'' \<mapsto> ''5'', ''ok'' \<mapsto> ''true'', ''none'' \<mapsto> ''<nil>'',
      ''tags'' \<mapsto> ''[p 7]'']" .
  have u: "unshared sprint_sample sample_body ''b.c'' ''y''"
    "unshared sprint_sample sample_body ''tags'' ''[p 7]''"
    by (simp_all add: entries_eval)
  show ?thesis
    using v a(1) a(2) a' b(1) b(2) u b' g(1) g(2) g' n n' c full
    by blast
qed

text \<open>
  C8, as stated, at an object with the top-level array \<open>"tags": ["p", 7]\<close>: the array is
  not dropped, it is kept under its key as \<^verbatim>\<open>%v\<close> prints it.
\<close>

theorem flattenJSON_keeps_array:
  "flattenJSON (sample_world id (Inl []) (Inl [])) sprint_sample sample_body ''tags'' = Some ''[p 7]''"
  by (simp add: flatten_eval)

text \<open>
  C8, amended. The flattened map captures only top-level strings, string-valued children
  of top-level objects and formatted top-level values: its paths are exactly the keys of
  the top-level values that are not objects and the paths \<open>parent.child\<close> of the
  string-valued children of top-level objects, and every value it holds is such a string
  or such a formatted value. A top-level string is held under its key, a string-valued
  child under \<open>parent.child\<close>, and every other top-level value that is not an object (a
  number, a boolean, null, and also an array, which is not dropped) is held under its key
  as formatted by \<^verbatim>\<open>%v\<close>, each provided that no entry with another value is written to
  the same path. Deeper nesting is dropped: a child of an object that is a number, a
  boolean, null, an array or an object gives no entry, so its path \<open>parent.child\<close> is
  absent from the map unless another entry is written to that path.
\<close>

theorem flattenJSON_paths:
  assumes "visits_all w"
  shows "dom (flattenJSON w fmtv data) =
      {key. \<exists>v. (key, v) \<in> set data \<and> ((\<exists>s. v = JString s) \<or> stringified v)} \<union>
      {key @ ''.'' @ subKey | key m subKey s.
         (key, JObject m) \<in> set data \<and> (subKey, JString s) \<in> set m} \<and>
    (\<forall>p s. flattenJSON w fmtv data p = Some s \<longrightarrow>
       (p, JString s) \<in> set data \<or>
       (\<exists>key m subKey. (key, JObject m) \<in> set data \<and> (subKey, JString s) \<in> set m \<and>
          p = key @ ''.'' @ subKey) \<or>
       (\<exists>v. (p, v) \<in> set data \<and> stringified v \<and> s = fmtv v)) \<and>
    (\<forall>key s. (key, JString s) \<in> set data \<and> unshared fmtv data key s \<longrightarrow>
       flattenJSON w fmtv data key = Some s) \<and>
    (\<forall>key m subKey s. (key, JObject m) \<in> set data \<and> (subKey, JString s) \<in> set m \<and>
       unshared fmtv data (key @ ''.'' @ subKey) s \<longrightarrow>
       flattenJSON w fmtv data (key @ ''.'' @ subKey) = Some s) \<and>
    (\<forall>key v. (key, v) \<in> set data \<and> stringified v \<and> unshared fmtv data key (fmtv v) \<longrightarrow>
       flattenJSON w fmtv data key = Some (fmtv v)) \<and>
    (\<forall>key m subKey v. (key, JObject m) \<in> set data \<and> (subKey, v) \<in> set m \<and>
       (\<forall>s. v \<noteq> JString s) \<and>
       key @ ''.'' @ subKey \<notin> fst ` set (flat_entries fmtv data) \<longrightarrow>
       flattenJSON w fmtv data (key @ ''.'' @ subKey) = None)"
proof -
  have "p \<in> dom (flattenJSON w fmtv data) \<longleftrightarrow>
      p \<in> {key. \<exists>v. (key, v) \<in> set data \<and> ((\<exists>s. v = JString s) \<or> stringified v)} \<union>
      {key @ ''.'' @ subKey | key m subKey s.
         (key, JObject m) \<in> set data \<and> (subKey, JString s) \<in> set m}" for p
  proof -
    have "p \<in> dom (flattenJSON w fmtv data) \<longleftrightarrow> (\<exists>s. (p, s) \<in> set (flat_entries fmtv data))"
      unfolding flattenJSON_dom [OF assms] by force
    also have "\<dots> \<longleftrightarrow> p \<in> {key. \<exists>v. (key, v) \<in> set data \<and> ((\<exists>s. v = JString s) \<or> stringified v)} \<union>
      {key @ ''.'' @ subKey | key m subKey s.
         (key, JObject m) \<in> set data \<and> (subKey, JString s) \<in> set m}"
      unfolding flat_entries_iff by blast
    finally show ?thesis .
  qed
  then have p1: "dom (flattenJSON w fmtv data) =
      {key. \<exists>v. (key, v) \<in> set data \<and> ((\<exists>s. v = JString s) \<or> stringified v)} \<union>
      {key @ ''.'' @ subKey | key m subKey s.
         (key, JObject m) \<in> set data \<and> (subKey, JString s) \<in> set m}"
    by blast
  have p2: "\<forall>p s. flattenJSON w fmtv data p = Some s \<longrightarrow>
       (p, JString s) \<in> set data \<or>
       (\<exists>key m subKey. (key, JObject m) \<in> set data \<and> (subKey, JString s) \<in> set m \<and>
          p = key @ ''.'' @ subKey) \<or>
       (\<exists>v. (p, v) \<in> set data \<and> stringified v \<and> s = fmtv v)"
  proof (intro allI impI)
    fix p s
    assume "flattenJSON w fmtv data p = Some s"
    from flattenJSON_Some [OF assms this]
    show "(p, JString s) \<in> set data \<or>
       (\<exists>key m subKey. (key, JObject m) \<in> set data \<and> (subKey, JString s) \<in> set m \<and>
          p = key @ ''.'' @ subKey) \<or>
       (\<exists>v. (p, v) \<in> set data \<and> stringified v \<and> s = fmtv v)"
      by (simp add: flat_entries_iff)
  qed
  have p3: "\<forall>key s. (key, JString s) \<in> set data \<and> unshared fmtv data key s \<longrightarrow>
       flattenJSON w fmtv data key = Some s"
  proof (intro allI impI, elim conjE)
    fix key s
    assume "(key, JString s) \<in> set data" and u: "unshared fmtv data key s"
    then have "(key, s) \<in> set (flat_entries fmtv data)"
      by (simp add: flat_entries_iff)
    then show "flattenJSON w fmtv data key = Some s"
      using u by (rule flattenJSON_unshared [OF assms])
  qed
  have p4: "\<forall>key m subKey s. (key, JObject m) \<in> set data \<and> (subKey, JString s) \<in> set m \<and>
       unshared fmtv data (key @ ''.'' @ subKey) s \<longrightarrow>
       flattenJSON w fmtv data (key @ ''.'' @ subKey) = Some s"
  proof (intro allI impI, elim conjE)
    fix key m subKey s
    assume "(key, JObject m) \<in> set data" and "(subKey, JString s) \<in> set m"
      and u: "unshared fmtv data (key @ ''.'' @ subKey) s"
    then have "(key @ ''.'' @ subKey, s) \<in> set (flat_entries fmtv data)"
      unfolding flat_entries_iff by blast
    then show "flattenJSON w fmtv data (key @ ''.'' @ subKey) = Some s"
      using u by (rule flattenJSON_unshared [OF assms])
  qed
  have p5: "\<forall>key v. (key, v) \<in> set data \<and> stringified v \<and> unshared fmtv data key (fmtv v) \<longrightarrow>
       flattenJSON w fmtv data key = Some (fmtv v)"
  proof (intro allI impI, elim conjE)
    fix key v
    assume "(key, v) \<in> set data" and "stringified v" and u: "unshared fmtv data key (fmtv v)"
    then have "(key, fmtv v) \<in> set (flat_entries fmtv data)"
      unfolding flat_entries_iff by blast
    then show "flattenJSON w fmtv data key = Some (fmtv v)"
      using u by (rule flattenJSON_unshared [OF assms])
  qed
  have p6: "\<forall>key m subKey v. (key, JObject m) \<in> set data \<and> (subKey, v) \<in> set m \<and>
       (\<forall>s. v \<noteq> JString s) \<and>
       key @ ''.'' @ subKey \<notin> fst ` set (flat_entries fmtv data) \<longrightarrow>
       flattenJSON w fmtv data (key @ ''.'' @ subKey) = None"
  proof (intro allI impI, elim conjE)
    fix key :: string and m :: "(string \<times> 'a json) list" and subKey :: string and v :: "'a json"
    assume "key @ ''.'' @ subKey \<notin> fst ` set (flat_entries fmtv data)"
    with assms show "flattenJSON w fmtv data (key @ ''.'' @ subKey) = None"
      by (rule flattenJSON_absent)
  qed
  show ?thesis
    by (rule conjI [OF p1 conjI [OF p2 conjI [OF p3 conjI [OF p4 conjI [OF p5 p6]]]]])
qed

theorem flattenJSON_paths_witness:
  "visits_all (sample_world rev (Inl []) (Inl [])) \<and>
   ''tags'' \<in> dom (flattenJSON (sample_world rev (Inl []) (Inl [])) sprint_sample sample_body) \<and>
   ''b.c'' \<in> dom (flattenJSON (sample_world rev (Inl []) (Inl [])) sprint_sample sample_body) \<and>
   ''b'' \<notin> dom (flattenJSON (sample_world rev (Inl []) (Inl [])) sprint_sample sample_body) \<and>
   ''b.d'' \<notin> dom (flattenJSON (sample_world rev (Inl []) (Inl [])) sprint_sample sample_body) \<and>
   (''a'', JString ''x'') \<in> set sample_body \<and> unshared sprint_sample sample_body ''a'' ''x'' \<and>
   flattenJSON (sample_world rev (Inl []) (Inl [])) sprint_sample sample_body ''a'' = Some ''x'' \<and>
   (''b'', JObject [(''c'', JString ''y''), (''d'', JNumber 5), (''e'', JArray [JNumber 1])])
     \<in> set sample_body \<and>
   (''c'', JString ''y'') \<in>
     set [(''c'', JString ''y''), (''d'', JNumber (5::nat)), (''e'', JArray [JNumber 1])] \<and>
   unshared sprint_sample sample_body ''b.c'' ''y'' \<and>
   flattenJSON (sample_world rev (Inl []) (Inl [])) sprint_sample sample_body ''b.c'' = Some ''y'' \<and>
   (''tags'', JArray [JString ''p'', JNumber 7]) \<in> set sample_body \<and>
   stringified (JArray [JString ''p'', JNumber (7::nat)]) \<and>
   unshared sprint_sample sample_body ''tags'' ''[p 7]'' \<and>
   flattenJSON (sample_world rev (Inl []) (Inl [])) sprint_sample sample_body ''tags'' = Some ''[p 7]'' \<and>
   (''e'', JArray [JNumber 1]) \<in>
     set [(''c'', JString ''y''), (''d'', JNumber (5::nat)), (''e'', JArray [JNumber 1])] \<and>
   ''b.e'' \<notin> fst ` set (flat_entries sprint_sample sample_body) \<and>
   flattenJSON (sample_world rev (Inl []) (Inl [])) sprint_sample sample_body ''b.e'' = None \<and>
   flattenJSON (sample_world rev (Inl []) (Inl [])) sprint_sample sample_body ''b'' = None"
proof -
  let ?w = "sample_world rev (Inl []) (Inl [])"
  let ?m = "[(''c'', JString ''y''), (''d'', JNumber 5), (''e'', JArray [JNumber (1::nat)])]"
  have v: "visits_all ?w"
    by (simp add: visits_all_def sample_world_def)
  note t = flattenJSON_paths [OF v, of sprint_sample sample_body]
  note t_dom = t [THEN conjunct1]
  note t_str = t [THEN conjunct2, THEN conjunct2, THEN conjunct1]
  note t_child = t [THEN conjunct2, THEN conjunct2, THEN conjunct2, THEN conjunct1]
  note t_other = t [THEN conjunct2, THEN conjunct2, THEN conjunct2, THEN conjunct2, THEN conjunct1]
  note t_deep = t [THEN conjunct2, THEN conjunct2, THEN conjunct2, THEN conjunct2, THEN conjunct2]
  have d: "dom (flattenJSON ?w sprint_sample sample_body) =
      {key. \<exists>v. (key, v) \<in> set sample_body \<and> ((\<exists>s. v = JString s) \<or> stringified v)} \<union>
      {key @ ''.'' @ subKey | key m subKey s.
         (key, JObject m) \<in> set sample_body \<and> (subKey, JString s) \<in> set m}"
    by (rule t_dom)
  have d1: "''tags'' \<in> dom (flattenJSON ?w sprint_sample sample_body)"
    unfolding d by (simp add: sample_body_def stringified_def)
  have d2: "''b.c'' \<in> dom (flattenJSON ?w sprint_sample sample_body)"
    unfolding d by (simp add: sample_body_def stringified_def)
  have d3: "''b'' \<notin> dom (flattenJSON ?w sprint_sample sample_body)"
    unfolding d by (auto simp: sample_body_def stringified_def)
  have d4: "''b.d'' \<notin> dom (flattenJSON ?w sprint_sample sample_body)"
    unfolding d by (auto simp: sample_body_def stringified_def)
  have a: "(''a'', JString ''x'') \<in> set sample_body" "unshared sprint_sample sample_body ''a'' ''x''"
    by (simp_all add: entries_eval)
  have a': "flattenJSON ?w sprint_sample sample_body ''a'' = Some ''x''"
    using t_str [rule_format, of "''a''" "''x''"] a by simp
  have b: "(''b'', JObject ?m) \<in> set sample_body" "(''c'', JString ''y'') \<in> set ?m"
    "unshared sprint_sample sample_body (''b'' @ ''.'' @ ''c'') ''y''"
    by (simp_all add: entries_eval)
  have "flattenJSON ?w sprint_sample sample_body (''b'' @ ''.'' @ ''c'') = Some ''y''"
    using t_child [rule_format, of "''b''" ?m "''c''" "''y''"] b by simp
  then have b': "flattenJSON ?w sprint_sample sample_body ''b.c'' = Some ''y''"
    by simp
  have g: "(''tags'', JArray [JString ''p'', JNumber 7]) \<in> set sample_body"
    "stringified (JArray [JString ''p'', JNumber (7::nat)])"
    "unshared sprint_sample sample_body ''tags'' (sprint_sample (JArray [JString ''p'', JNumber 7]))"
    by (simp_all add: entries_eval stringified_def)
  have "flattenJSON ?w sprint_sample sample_body ''tags'' =
      Some (sprint_sample (JArray [JString ''p'', JNumber 7]))"
    using t_other [rule_format, of "''tags''" "JArray [JString ''p'', JNumber 7]"] g by simp
  then have g': "flattenJSON ?w sprint_sample sample_body ''tags'' = Some ''[p 7]''"
    by (simp add: digits.simps)
  have e: "(''e'', JArray [JNumber 1]) \<in> set ?m" "\<forall>s. JArray [JNumber (1::nat)] \<noteq> JString s"
    "''b'' @ ''.'' @ ''e'' \<notin> fst ` set (flat_entries sprint_sample sample_body)"
    by (simp_all add: entries_eval)
  have "flattenJSON ?w sprint_sample sample_body (''b'' @ ''.'' @ ''e'') = None"
    using t_deep [rule_format, of "''b''" ?m "''e''" "JArray [JNumber 1]"] b(1) e by simp
  then have e': "flattenJSON ?w sprint_sample sample_body ''b.e'' = None"
    by simp
  have e'': "''b.e'' \<notin> fst ` set (flat_entries sprint_sample sample_body)"
    using e(3) by simp
  have n: "flattenJSON ?w sprint_sample sample_body ''b'' = None"
    using d3 by (simp add: domIff)
  have u: "unshared sprint_sample sample_body ''b.c'' ''y''"
    "unshared sprint_sample sample_body ''tags'' ''[p 7]''"
    by (simp_all add: entries_eval)
  show ?thesis
    using v d1 d2 d3 d4 a(1) a(2) a' b(1) b(2) u b' g(1) g(2) g' e(1) e'' e' n
    by simp
qed

section \<open>The HTTP strategy\<close>

lemma verifyHTTP_response:
  assumes "new_request l (Method cfg) (renderTemplate l (URL cfg) [''Key'' \<mapsto> key]) = None"
    and "http_do w (build_request l w cfg key) = Inr (statusCode, body)"
  shows "verifyHTTP l w cfg key result =
    (interpret_response l w cfg result statusCode body, [HTTPDo (build_request l w cfg key)])"
  using assms by (simp add: verifyHTTP_def Let_def)

lemma sample_http:
  "new_request sample_lib method url = None"
  "http_do (sample_world order outcome identity) req = outcome"
  by (simp_all add: sample_lib_def sample_world_def)

lemma renderTemplate_parser: "renderTemplate (l\<lparr>json_unmarshal := u\<rparr>) = renderTemplate l"
  by (intro ext) (simp add: renderTemplate_def split: sum.splits)

lemma build_request_kind:
  "build_request l w (cfg\<lparr>ResponseType := k\<rparr>) key = build_request l w cfg key"
  by (simp add: build_request_def Let_def)

text \<open>
  C1, as stated, at a service with the error field \<open>error\<close>, response type \<open>json\<close> and no
  declared response field: the body \<open>{"ok":true,"error":"Token_Revoked"}\<close> with the success
  status gets the verdict \<open>valid\<close>, because the body is read only when a response field
  is declared.
\<close>

theorem fieldless_service_skips_body:
  \<open>ErrorField fieldless_config = ''error'' \<and> ResponseType fieldless_config = ''json'' \<and>
   ResponseFields fieldless_config = [] \<and> SuccessStatus fieldless_config = 200 \<and>
   json_unmarshal sample_lib ''{"ok":true,"error":"Token_Revoked"}'' =
     Inr [(''ok'', JBool True), (''error'', JString ''Token_Revoked'')] \<and>
   fst (verifyHTTP sample_lib
          (sample_world id (Inr (200, ''{"ok":true,"error":"Token_Revoked"}'')) (Inl []))
          fieldless_config ''k'' sample_result) =
     sample_result\<lparr>Valid := True, Message := ''valid''\<rparr>\<close>
  by (simp add: verifyHTTP_def Let_def sample_http interpret_response_def)
     (simp add: fieldless_config_def flagged_config_def zero_config_def sample_lib_def
        sample_unmarshal_def)

text \<open>
  C1, amended. For a service whose response type is \<open>json\<close>, that declares at least one
  response field and has a non-empty error-field name: when the status is the success
  status and the body parses to an object that has the error field as a non-empty string,
  the verdict is negative and the message is that string lower-cased. Nothing is assumed
  about the success field or the declared response fields in the body, so the error field
  wins over both.
\<close>

theorem verifyHTTP_error_field:
  assumes "ErrorField cfg \<noteq> ''''" and "ResponseType cfg = ''json''" and "ResponseFields cfg \<noteq> []"
    and "new_request l (Method cfg) (renderTemplate l (URL cfg) [''Key'' \<mapsto> key]) = None"
    and "http_do w (build_request l w cfg key) = Inr (SuccessStatus cfg, body)"
    and "json_unmarshal l body = Inr jsonResp"
    and "map_of jsonResp (ErrorField cfg) = Some (JString errMsg)" and "errMsg \<noteq> ''''"
  shows "fst (verifyHTTP l w cfg key result) = result\<lparr>Valid := False, Message := toLower l errMsg\<rparr>"
proof -
  have "error_message cfg jsonResp = Some errMsg"
    using assms(1,7,8) by (simp add: error_message_def)
  then have "interpret_response l w cfg result (SuccessStatus cfg) body =
      result\<lparr>Valid := False, Message := toLower l errMsg\<rparr>"
    using assms(2,3,6) by (simp add: interpret_response_def)
  then show ?thesis
    using verifyHTTP_response [OF assms(4,5)] by simp
qed

theorem verifyHTTP_error_field_witness:
  \<open>ErrorField flagged_config \<noteq> '''' \<and> ResponseType flagged_config = ''json'' \<and>
   ResponseFields flagged_config \<noteq> [] \<and>
   json_unmarshal sample_lib ''{"ok":true,"error":"Token_Revoked"}'' =
     Inr [(''ok'', JBool True), (''error'', JString ''Token_Revoked'')] \<and>
   SuccessField flagged_config = ''ok'' \<and>
   fst (verifyHTTP sample_lib
          (sample_world id (Inr (200, ''{"ok":true,"error":"Token_Revoked"}'')) (Inl []))
          flagged_config ''k'' sample_result) =
     sample_result\<lparr>Valid := False, Message := ''token_revoked''\<rparr>\<close>
proof -
  let ?body = \<open>''{"ok":true,"error":"Token_Revoked"}''\<close>
  let ?w = "sample_world id (Inr (200, ?body)) (Inl [])"
  have c: "ErrorField flagged_config \<noteq> ''''" "ResponseType flagged_config = ''json''"
    "ResponseFields flagged_config \<noteq> []" "SuccessField flagged_config = ''ok''"
    by (simp_all add: flagged_config_def zero_config_def)
  have h: "http_do ?w (build_request sample_lib ?w flagged_config ''k'') =
      Inr (SuccessStatus flagged_config, ?body)"
    by (simp add: sample_http flagged_config_def zero_config_def)
  have u: "json_unmarshal sample_lib ?body =
      Inr [(''ok'', JBool True), (''error'', JString ''Token_Revoked'')]"
    by (simp add: sample_lib_def sample_unmarshal_def)
  have e: "map_of [(''ok'', JBool True), (''error'', JString ''Token_Revoked'')]
      (ErrorField flagged_config) = Some (JString ''Token_Revoked'')"
    by (simp add: flagged_config_def zero_config_def)
  have n: "''Token_Revoked'' \<noteq> ''''"
    by simp
  have t: "toLower sample_lib ''Token_Revoked'' = ''token_revoked''"
    by (simp add: sample_lib_def lower_char_def)
  show ?thesis
    using verifyHTTP_error_field [OF c(1) c(2) c(3) sample_http(1) h u e n, of sample_result]
      c u t by simp
qed

text \<open>
  C10. For a service whose response type is \<open>json\<close> and that declares no response field, a
  response with the success status gets a positive verdict with the message \<open>valid\<close> and
  the details the call came with, which are empty when the call comes from
  \<open>verifyAPIKey\<close>. The result is that of the same service with the response type \<open>raw\<close>,
  and it is the same for every body and every JSON parser: the body is not looked at.
\<close>

theorem verifyHTTP_json_without_fields:
  assumes "ResponseType cfg = ''json''" and "ResponseFields cfg = []"
    and "new_request l (Method cfg) (renderTemplate l (URL cfg) [''Key'' \<mapsto> key]) = None"
    and "http_do w (build_request l w cfg key) = Inr (SuccessStatus cfg, body)"
  shows "fst (verifyHTTP l w cfg key result) = result\<lparr>Valid := True, Message := ''valid''\<rparr> \<and>
    Details (fst (verifyHTTP l w cfg key result)) = Details result \<and>
    verifyHTTP l w (cfg\<lparr>ResponseType := ''raw''\<rparr>) key result = verifyHTTP l w cfg key result \<and>
    (\<forall>u body'. fst (verifyHTTP (l\<lparr>json_unmarshal := u\<rparr>)
                       (w\<lparr>http_do := \<lambda>req. Inr (SuccessStatus cfg, body')\<rparr>) cfg key result) =
       fst (verifyHTTP l w cfg key result)) \<and>
    (\<forall>services service secret.
       services (toLower l service) = Some cfg \<and> (Method cfg = ''GET'' \<or> Method cfg = ''POST'') \<longrightarrow>
       Valid (fst (verifyAPIKey l w services service key secret)) = True \<and>
       Message (fst (verifyAPIKey l w services service key secret)) = ''valid'' \<and>
       Details (fst (verifyAPIKey l w services service key secret)) = '''')"
proof -
  have i: "interpret_response l' w' cfg r (SuccessStatus cfg) b = r\<lparr>Valid := True, Message := ''valid''\<rparr>"
    for l' :: "('a, 'b) golib" and w' r b
    using assms(2) by (simp add: interpret_response_def)
  have a: "fst (verifyHTTP l w cfg key r) = r\<lparr>Valid := True, Message := ''valid''\<rparr>" for r
    using verifyHTTP_response [OF assms(3,4)] i by simp
  have b: "verifyHTTP l w (cfg\<lparr>ResponseType := ''raw''\<rparr>) key result = verifyHTTP l w cfg key result"
    using assms(2,3,4) by (simp add: verifyHTTP_def Let_def build_request_kind interpret_response_def)
  have c: "fst (verifyHTTP (l\<lparr>json_unmarshal := u\<rparr>)
                       (w\<lparr>http_do := \<lambda>req. Inr (SuccessStatus cfg, body')\<rparr>) cfg key result) =
       fst (verifyHTTP l w cfg key result)" for u body'
    unfolding a using assms(3) by (simp add: verifyHTTP_def Let_def renderTemplate_parser i)
  have d: "Valid (fst (verifyAPIKey l w services service key secret)) = True \<and>
       Message (fst (verifyAPIKey l w services service key secret)) = ''valid'' \<and>
       Details (fst (verifyAPIKey l w services service key secret)) = ''''"
    if "services (toLower l service) = Some cfg" "Method cfg = ''GET'' \<or> Method cfg = ''POST''"
    for services service secret
    using that by (auto simp: verifyAPIKey_def Let_def a)
  show ?thesis
    using a b c d by simp
qed

theorem verifyHTTP_json_without_fields_witness:
  "ResponseType fieldless_config = ''json'' \<and> ResponseFields fieldless_config = [] \<and>
   sample_services (toLower sample_lib ''Fieldless'') = Some fieldless_config \<and>
   Method fieldless_config = ''POST'' \<and>
   fst (verifyHTTP sample_lib (sample_world id (Inr (200, ''not json at all'')) (Inl []))
          fieldless_config ''k'' sample_result) =
     sample_result\<lparr>Valid := True, Message := ''valid''\<rparr> \<and>
   Valid (fst (verifyAPIKey sample_lib (sample_world id (Inr (200, ''not json at all'')) (Inl []))
          sample_services ''Fieldless'' ''k'' '''')) = True \<and>
   Message (fst (verifyAPIKey sample_lib (sample_world id (Inr (200, ''not json at all'')) (Inl []))
          sample_services ''Fieldless'' ''k'' '''')) = ''valid'' \<and>
   Details (fst (verifyAPIKey sample_lib (sample_world id (Inr (200, ''not json at all'')) (Inl []))
          sample_services ''Fieldless'' ''k'' '''')) = ''''"
proof -
  let ?w = "sample_world id (Inr (200, ''not json at all'')) (Inl [])"
  have c: "ResponseType fieldless_config = ''json''" "ResponseFields fieldless_config = []"
    "Method fieldless_config = ''POST''"
    by (simp_all add: fieldless_config_def flagged_config_def zero_config_def)
  have s: "sample_services (toLower sample_lib ''Fieldless'') = Some fieldless_config"
    by (simp add: sample_services_def sample_lib_def lower_char_def)
  have h: "http_do ?w (build_request sample_lib ?w fieldless_config ''k'') =
      Inr (SuccessStatus fieldless_config, ''not json at all'')"
    by (simp add: sample_http fieldless_config_def flagged_config_def zero_config_def)
  note t = verifyHTTP_json_without_fields [OF c(1) c(2) sample_http(1) h, of sample_result]
  from t have "fst (verifyHTTP sample_lib ?w fieldless_config ''k'' sample_result) =
      sample_result\<lparr>Valid := True, Message := ''valid''\<rparr>"
    by blast
  moreover from t s c(3)
  have "Valid (fst (verifyAPIKey sample_lib ?w sample_services ''Fieldless'' ''k'' '''')) = True \<and>
       Message (fst (verifyAPIKey sample_lib ?w sample_services ''Fieldless'' ''k'' '''')) = ''valid'' \<and>
       Details (fst (verifyAPIKey sample_lib ?w sample_services ''Fieldless'' ''k'' '''')) = ''''"
    by blast
  ultimately show ?thesis
    using c s by simp
qed

section \<open>The AWS strategy\<close>

text \<open>\<open>Contains\<close> is the occurrence of a contiguous block.\<close>

lemma Contains_iff: "Contains s substr \<longleftrightarrow> sublist substr s"
  by (induction s) (simp_all add: sublist_Cons_right)

lemma sample_aws:
  "aws_load_config (sample_world order outcome identity) accessKey secretKey = None"
  "sts_get_caller_identity (sample_world order outcome identity) accessKey secretKey = identity"
  by (simp_all add: sample_world_def)

text \<open>
  C5. With an empty secret \<open>verifyAWS\<close> makes no call outside the process and its verdict
  is negative. An access key with the prefix \<open>AKIA\<close> and of length 20 gets the message
  that the secret key is required and the details that show the invocation; every other
  access key gets the message \<open>invalid aws access key format\<close> and the details it was
  called with, which are empty when the call comes from \<open>verifyAPIKey\<close>.
\<close>

theorem verifyAWS_format_phase:
  "snd (verifyAWS w accessKey '''' result) = [] \<and>
   Valid (fst (verifyAWS w accessKey '''' result)) = False \<and>
   (prefix ''AKIA'' accessKey \<and> length accessKey = 20 \<longrightarrow>
      Message (fst (verifyAWS w accessKey '''' result)) = ''key format valid but secret key required'' \<and>
      Details (fst (verifyAWS w accessKey '''' result)) =
        ''use: roq -s aws -k AKIA... -secret YOUR_SECRET_KEY'') \<and>
   (\<not> (prefix ''AKIA'' accessKey \<and> length accessKey = 20) \<longrightarrow>
      Message (fst (verifyAWS w accessKey '''' result)) = ''invalid aws access key format'' \<and>
      Details (fst (verifyAWS w accessKey '''' result)) = Details result) \<and>
   (\<forall>l services service serviceConfig.
      services (toLower l service) = Some serviceConfig \<and>
      Method serviceConfig = ''SDK'' \<and> SDKType serviceConfig = ''aws'' \<longrightarrow>
      snd (verifyAPIKey l w services service accessKey '''') = [] \<and>
      Valid (fst (verifyAPIKey l w services service accessKey '''')) = False \<and>
      Message (fst (verifyAPIKey l w services service accessKey '''')) =
        (if prefix ''AKIA'' accessKey \<and> length accessKey = 20
         then ''key format valid but secret key required''
         else ''invalid aws access key format'') \<and>
      Details (fst (verifyAPIKey l w services service accessKey '''')) =
        (if prefix ''AKIA'' accessKey \<and> length accessKey = 20
         then ''use: roq -s aws -k AKIA... -secret YOUR_SECRET_KEY''
         else ''''))"
  by (auto simp: verifyAWS_def verifyAPIKey_def Let_def)

theorem verifyAWS_format_phase_witness:
  "prefix ''AKIA'' ''AKIA1234567890123456'' \<and> length ''AKIA1234567890123456'' = 20 \<and>
   Message (fst (verifyAWS (sample_world id (Inl ''unreachable'') (Inl ''unreachable''))
       ''AKIA1234567890123456'' '''' sample_result)) = ''key format valid but secret key required'' \<and>
   \<not> (prefix ''AKIA'' ''notakey'' \<and> length ''notakey'' = 20) \<and>
   sample_services (toLower sample_lib ''aws'') = Some aws_config \<and>
   Method aws_config = ''SDK'' \<and> SDKType aws_config = ''aws'' \<and>
   snd (verifyAPIKey sample_lib (sample_world id (Inl ''unreachable'') (Inl ''unreachable''))
       sample_services ''aws'' ''notakey'' '''') = [] \<and>
   Message (fst (verifyAPIKey sample_lib (sample_world id (Inl ''unreachable'') (Inl ''unreachable''))
       sample_services ''aws'' ''notakey'' '''')) = ''invalid aws access key format'' \<and>
   Details (fst (verifyAPIKey sample_lib (sample_world id (Inl ''unreachable'') (Inl ''unreachable''))
       sample_services ''aws'' ''notakey'' '''')) = ''''"
proof -
  let ?w = "sample_world id (Inl ''unreachable'') (Inl ''unreachable'')"
  have k: "prefix ''AKIA'' ''AKIA1234567890123456'' \<and> length ''AKIA1234567890123456'' = 20"
    by simp
  have n: "\<not> (prefix ''AKIA'' ''notakey'' \<and> length ''notakey'' = 20)"
    by simp
  have s: "sample_services (toLower sample_lib ''aws'') = Some aws_config"
    by (simp add: sample_lib_def sample_services_def lower_char_def)
  have m: "Method aws_config = ''SDK'' \<and> SDKType aws_config = ''aws''"
    by (simp add: aws_config_def zero_config_def)
  note a = verifyAWS_format_phase [of ?w "''AKIA1234567890123456''" sample_result]
  note b = verifyAWS_format_phase [of ?w "''notakey''" sample_result]
  from a k have "Message (fst (verifyAWS ?w ''AKIA1234567890123456'' '''' sample_result)) =
      ''key format valid but secret key required''"
    by blast
  moreover from b s m
  have "snd (verifyAPIKey sample_lib ?w sample_services ''aws'' ''notakey'' '''') = [] \<and>
    Message (fst (verifyAPIKey sample_lib ?w sample_services ''aws'' ''notakey'' '''')) =
      (if prefix ''AKIA'' ''notakey'' \<and> length ''notakey'' = 20
       then ''key format valid but secret key required''
       else ''invalid aws access key format'') \<and>
    Details (fst (verifyAPIKey sample_lib ?w sample_services ''aws'' ''notakey'' '''')) =
      (if prefix ''AKIA'' ''notakey'' \<and> length ''notakey'' = 20
       then ''use: roq -s aws -k AKIA... -secret YOUR_SECRET_KEY''
       else '''')"
    by blast
  then have "snd (verifyAPIKey sample_lib ?w sample_services ''aws'' ''notakey'' '''') = [] \<and>
    Message (fst (verifyAPIKey sample_lib ?w sample_services ''aws'' ''notakey'' '''')) =
      ''invalid aws access key format'' \<and>
    Details (fst (verifyAPIKey sample_lib ?w sample_services ''aws'' ''notakey'' '''')) = ''''"
    by simp
  ultimately show ?thesis
    using k n s m by simp
qed

text \<open>
  C7. With a secret, once the configuration is loaded, an error of the STS call gives a
  negative verdict with exactly one of three messages: access key not found when the
  error text contains \<open>InvalidClientTokenId\<close>; otherwise incorrect secret key when it
  contains \<open>SignatureDoesNotMatch\<close>; otherwise \<open>verification failed: \<close> followed by the
  error text.
\<close>

theorem verifyAWS_sts_errors:
  assumes "secretKey \<noteq> ''''" and "aws_load_config w accessKey secretKey = None"
    and "sts_get_caller_identity w accessKey secretKey = Inl err"
  shows "Valid (fst (verifyAWS w accessKey secretKey result)) = False \<and>
    (Contains err ''InvalidClientTokenId'' \<longrightarrow>
       Message (fst (verifyAWS w accessKey secretKey result)) =
         ''invalid credentials (access key not found)'') \<and>
    (\<not> Contains err ''InvalidClientTokenId'' \<and> Contains err ''SignatureDoesNotMatch'' \<longrightarrow>
       Message (fst (verifyAWS w accessKey secretKey result)) =
         ''invalid credentials (incorrect secret key)'') \<and>
    (\<not> Contains err ''InvalidClientTokenId'' \<and> \<not> Contains err ''SignatureDoesNotMatch'' \<longrightarrow>
       Message (fst (verifyAWS w accessKey secretKey result)) = ''verification failed: '' @ err)"
  using assms by (simp add: verifyAWS_def sts_error_message_def)

theorem verifyAWS_sts_errors_witness:
  "''secret'' \<noteq> '''' \<and>
   Contains ''api error InvalidClientTokenId: The security token is invalid'' ''InvalidClientTokenId'' \<and>
   Message (fst (verifyAWS
      (sample_world id (Inl ''unreachable'')
         (Inl ''api error InvalidClientTokenId: The security token is invalid''))
      ''AKIA1234567890123456'' ''secret'' sample_result)) = ''invalid credentials (access key not found)'' \<and>
   \<not> Contains ''api error SignatureDoesNotMatch: check your key'' ''InvalidClientTokenId'' \<and>
   Contains ''api error SignatureDoesNotMatch: check your key'' ''SignatureDoesNotMatch'' \<and>
   Message (fst (verifyAWS
      (sample_world id (Inl ''unreachable'') (Inl ''api error SignatureDoesNotMatch: check your key''))
      ''AKIA1234567890123456'' ''secret'' sample_result)) = ''invalid credentials (incorrect secret key)'' \<and>
   \<not> Contains ''dial tcp: i/o timeout'' ''InvalidClientTokenId'' \<and>
   \<not> Contains ''dial tcp: i/o timeout'' ''SignatureDoesNotMatch'' \<and>
   Message (fst (verifyAWS (sample_world id (Inl ''unreachable'') (Inl ''dial tcp: i/o timeout''))
      ''AKIA1234567890123456'' ''secret'' sample_result)) = ''verification failed: dial tcp: i/o timeout''"
proof -
  have s: "''secret'' \<noteq> ''''"
    by simp
  have c1: "Contains ''api error InvalidClientTokenId: The security token is invalid''
      ''InvalidClientTokenId''"
    by simp
  have c2: "\<not> Contains ''api error SignatureDoesNotMatch: check your key'' ''InvalidClientTokenId''"
    "Contains ''api error SignatureDoesNotMatch: check your key'' ''SignatureDoesNotMatch''"
    by simp_all
  have c3: "\<not> Contains ''dial tcp: i/o timeout'' ''InvalidClientTokenId''"
    "\<not> Contains ''dial tcp: i/o timeout'' ''SignatureDoesNotMatch''"
    by simp_all
  let ?e1 = "''api error InvalidClientTokenId: The security token is invalid''"
  let ?e2 = "''api error SignatureDoesNotMatch: check your key''"
  let ?e3 = "''dial tcp: i/o timeout''"
  note t1 = verifyAWS_sts_errors [where w = "sample_world id (Inl ''unreachable'') (Inl ?e1)"
      and accessKey = "''AKIA1234567890123456''" and secretKey = "''secret''" and err = ?e1
      and result = sample_result, OF s sample_aws(1) sample_aws(2)]
  note t2 = verifyAWS_sts_errors [where w = "sample_world id (Inl ''unreachable'') (Inl ?e2)"
      and accessKey = "''AKIA1234567890123456''" and secretKey = "''secret''" and err = ?e2
      and result = sample_result, OF s sample_aws(1) sample_aws(2)]
  note t3 = verifyAWS_sts_errors [where w = "sample_world id (Inl ''unreachable'') (Inl ?e3)"
      and accessKey = "''AKIA1234567890123456''" and secretKey = "''secret''" and err = ?e3
      and result = sample_result, OF s sample_aws(1) sample_aws(2)]
  have "Message (fst (verifyAWS (sample_world id (Inl ''unreachable'') (Inl ?e1))
      ''AKIA1234567890123456'' ''secret'' sample_result)) = ''invalid credentials (access key not found)''"
    using t1 c1 by blast
  moreover have "Message (fst (verifyAWS (sample_world id (Inl ''unreachable'') (Inl ?e2))
      ''AKIA1234567890123456'' ''secret'' sample_result)) = ''invalid credentials (incorrect secret key)''"
    using t2 c2 by blast
  moreover have "Message (fst (verifyAWS (sample_world id (Inl ''unreachable'') (Inl ?e3))
      ''AKIA1234567890123456'' ''secret'' sample_result)) = ''verification failed: '' @ ?e3"
    using t3 c3 by blast
  ultimately show ?thesis
    using s c1 c2 c3 by simp
qed

section \<open>The dispatcher\<close>

text \<open>
  C6. For a service identifier whose lower-cased form is not in the catalog, \<open>verifyAPIKey\<close>
  returns a negative verdict with the message \<open>unsupported service: \<close> followed by the
  identifier as supplied, no details, an empty key field, and the current time; it makes
  no call outside the process.
\<close>

theorem verifyAPIKey_unsupported:
  assumes "services (toLower l service) = None"
  shows "Valid (fst (verifyAPIKey l w services service key secret)) = False \<and>
    Message (fst (verifyAPIKey l w services service key secret)) = ''unsupported service: '' @ service \<and>
    Details (fst (verifyAPIKey l w services service key secret)) = '''' \<and>
    Key (fst (verifyAPIKey l w services service key secret)) = '''' \<and>
    Timestamp (fst (verifyAPIKey l w services service key secret)) = now w \<and>
    Service (fst (verifyAPIKey l w services service key secret)) = toLower l service \<and>
    snd (verifyAPIKey l w services service key secret) = []"
  using assms by (simp add: verifyAPIKey_def)

theorem verifyAPIKey_unsupported_witness:
  "sample_services (toLower sample_lib ''FooBar'') = None \<and>
   verifyAPIKey sample_lib (sample_world id (Inl ''unreachable'') (Inl ''unreachable''))
       sample_services ''FooBar'' ''ghp_0123456789'' '''' =
     (\<lparr>Service = ''foobar'', Key = '''', Valid = False,
       Message = ''unsupported service: FooBar'', Details = '''',
       Timestamp = ''2024-05-01T12:00:00Z''\<rparr>, [])"
proof -
  let ?w = "sample_world id (Inl ''unreachable'') (Inl ''unreachable'')"
  have n: "sample_services (toLower sample_lib ''FooBar'') = None"
    by (simp add: sample_lib_def sample_services_def lower_char_def)
  have t: "toLower sample_lib ''FooBar'' = ''foobar''" "now ?w = ''2024-05-01T12:00:00Z''"
    by (simp_all add: sample_lib_def sample_world_def lower_char_def)
  from verifyAPIKey_unsupported [where services = sample_services and l = sample_lib
      and service = "''FooBar''" and w = ?w and key = "''ghp_0123456789''" and secret = "''''", OF n] t
  have "fst (verifyAPIKey sample_lib ?w sample_services ''FooBar'' ''ghp_0123456789'' '''') =
      \<lparr>Service = ''foobar'', Key = '''', Valid = False,
       Message = ''unsupported service: FooBar'', Details = '''',
       Timestamp = ''2024-05-01T12:00:00Z''\<rparr> \<and>
    snd (verifyAPIKey sample_lib ?w sample_services ''FooBar'' ''ghp_0123456789'' '''') = []"
    by (cases "fst (verifyAPIKey sample_lib ?w sample_services ''FooBar'' ''ghp_0123456789'' '''')")
       simp
  then show ?thesis
    using n by (simp add: prod_eq_iff)
qed

section \<open>Two runs on the same inputs\<close>

lemma flattenJSON_None_order:
  assumes "visits_all w1" and "visits_all w2"
  shows "flattenJSON w1 fmtv data p = None \<longleftrightarrow> flattenJSON w2 fmtv data p = None"
  using flattenJSON_dom [OF assms(1), of fmtv data] flattenJSON_dom [OF assms(2), of fmtv data]
  by (metis domIff)

lemma hasData_order:
  assumes "visits_all w1" and "visits_all w2"
  shows "list_ex (\<lambda>field. flattenJSON w1 fmtv data field \<noteq> None) fs =
    list_ex (\<lambda>field. flattenJSON w2 fmtv data field \<noteq> None) fs"
  using flattenJSON_None_order [OF assms, of fmtv data] by (simp add: list_ex_iff)

lemma flattenJSON_order:
  assumes "visits_all w1" and "visits_all w2" and "collision_free fmtv data"
  shows "flattenJSON w1 fmtv data = flattenJSON w2 fmtv data"
  using flattenJSON_collision_free [OF assms(1,3)] flattenJSON_collision_free [OF assms(2,3)]
  by simp

lemma valid_result_fields:
  "Valid (valid_result l cfg flattened r) = True"
  "Message (valid_result l cfg flattened r) = ''valid''"
  "Details (valid_result l cfg flattened r) =
     (if DetailsFormat cfg \<noteq> '''' then renderTemplate l (DetailsFormat cfg) flattened else Details r)"
  by (simp_all add: valid_result_def)

lemma interpret_response_verdict_order:
  assumes "visits_all w1" and "visits_all w2"
  shows "Valid (interpret_response l w1 cfg r1 statusCode body) =
      Valid (interpret_response l w2 cfg r2 statusCode body) \<and>
    Message (interpret_response l w1 cfg r1 statusCode body) =
      Message (interpret_response l w2 cfg r2 statusCode body)"
  by (simp add: interpret_response_def Let_def valid_result_fields hasData_order [OF assms]
      del: not_None_eq split: sum.splits option.splits)

lemma interpret_response_details_order:
  assumes "visits_all w1" and "visits_all w2" and "Details r1 = Details r2"
    and "\<And>jsonResp. json_unmarshal l body = Inr jsonResp \<Longrightarrow> collision_free (sprint_v l) jsonResp"
  shows "Details (interpret_response l w1 cfg r1 statusCode body) =
      Details (interpret_response l w2 cfg r2 statusCode body)"
proof (cases "json_unmarshal l body")
  case (Inl err)
  then show ?thesis
    using assms(3) by (simp add: interpret_response_def)
next
  case (Inr jsonResp)
  have "flattenJSON w1 (sprint_v l) jsonResp = flattenJSON w2 (sprint_v l) jsonResp"
    using assms(1,2) assms(4) [OF Inr] by (rule flattenJSON_order)
  then show ?thesis
    using assms(3) Inr
    by (simp add: interpret_response_def Let_def valid_result_fields split: option.splits)
qed

lemma verifyHTTP_order:
  assumes "visits_all w1" and "visits_all w2" and "Details r1 = Details r2"
    and "http_do w1 (build_request l w1 cfg key) = http_do w2 (build_request l w2 cfg key)"
  shows "Valid (fst (verifyHTTP l w1 cfg key r1)) = Valid (fst (verifyHTTP l w2 cfg key r2)) \<and>
    Message (fst (verifyHTTP l w1 cfg key r1)) = Message (fst (verifyHTTP l w2 cfg key r2)) \<and>
    ((\<forall>statusCode body jsonResp.
        http_do w1 (build_request l w1 cfg key) = Inr (statusCode, body) \<and>
        json_unmarshal l body = Inr jsonResp \<longrightarrow>
        collision_free (sprint_v l) jsonResp) \<longrightarrow>
     Details (fst (verifyHTTP l w1 cfg key r1)) = Details (fst (verifyHTTP l w2 cfg key r2)))"
proof (cases "new_request l (Method cfg) (renderTemplate l (URL cfg) [''Key'' \<mapsto> key])")
  case (Some err)
  then show ?thesis
    using assms(3) by (simp add: verifyHTTP_def)
next
  case None
  note same = assms(4) [symmetric]
  show ?thesis
  proof (cases "http_do w1 (build_request l w1 cfg key)")
    case (Inl err)
    then show ?thesis
      using None same assms(3) by (simp add: verifyHTTP_def Let_def)
  next
    case (Inr resp)
    obtain statusCode body where resp: "resp = (statusCode, body)"
      by (cases resp)
    have h1: "fst (verifyHTTP l w1 cfg key r1) = interpret_response l w1 cfg r1 statusCode body"
      using None Inr resp by (simp add: verifyHTTP_def Let_def)
    have h2: "fst (verifyHTTP l w2 cfg key r2) = interpret_response l w2 cfg r2 statusCode body"
      using None Inr resp same by (simp add: verifyHTTP_def Let_def)
    have "Details (interpret_response l w1 cfg r1 statusCode body) =
        Details (interpret_response l w2 cfg r2 statusCode body)"
      if "\<forall>statusCode body jsonResp.
        http_do w1 (build_request l w1 cfg key) = Inr (statusCode, body) \<and>
        json_unmarshal l body = Inr jsonResp \<longrightarrow>
        collision_free (sprint_v l) jsonResp"
      using assms(1,2,3)
    proof (rule interpret_response_details_order)
      fix jsonResp
      assume "json_unmarshal l body = Inr jsonResp"
      then show "collision_free (sprint_v l) jsonResp"
        using that Inr resp by blast
    qed
    then show ?thesis
      unfolding h1 h2 using interpret_response_verdict_order [OF assms(1,2)] by blast
  qed
qed

lemma verifyAWS_order:
  assumes "Details r1 = Details r2"
    and "aws_load_config w1 accessKey secretKey = aws_load_config w2 accessKey secretKey"
    and "sts_get_caller_identity w1 accessKey secretKey =
      sts_get_caller_identity w2 accessKey secretKey"
  shows "Valid (fst (verifyAWS w1 accessKey secretKey r1)) =
      Valid (fst (verifyAWS w2 accessKey secretKey r2)) \<and>
    Message (fst (verifyAWS w1 accessKey secretKey r1)) =
      Message (fst (verifyAWS w2 accessKey secretKey r2)) \<and>
    Details (fst (verifyAWS w1 accessKey secretKey r1)) =
      Details (fst (verifyAWS w2 accessKey secretKey r2))"
  using assms by (simp add: verifyAWS_def split: option.splits sum.splits prod.splits)

text \<open>
  C9, as stated, at a service that declares the response field \<open>b.c\<close> and formats its
  details with \<open>{{index . `b.c`}}\<close>. Two calls with the same identifier, credential and
  secret, to which the transport gives the same status 200 and the same body
  \<open>{"b.c":"x","b":{"c":"y"}}\<close>, return different details: \<open>y\<close> when \<^verbatim>\<open>range\<close> visits
  the decoded map in the listed order, \<open>x\<close> when it visits it in the reverse order. Go
  does not fix the order in which \<^verbatim>\<open>range\<close> visits a map.
\<close>

theorem verifyAPIKey_details_differ:
  \<open>Details (fst (verifyAPIKey sample_lib
      (sample_world id (Inr (200, ''{"b.c":"x","b":{"c":"y"}}'')) (Inl []))
      sample_services ''dotted'' ''k'' '''')) = ''y'' \<and>
   Details (fst (verifyAPIKey sample_lib
      (sample_world rev (Inr (200, ''{"b.c":"x","b":{"c":"y"}}'')) (Inl []))
      sample_services ''dotted'' ''k'' '''')) = ''x''\<close>
  by (simp add: verifyAPIKey_def sample_services_def sample_lib_def lower_char_def
        dotted_config_def zero_config_def Let_def verifyHTTP_def sample_world_def
        interpret_response_def sample_unmarshal_def error_message_def valid_result_def
        renderTemplate_def sample_parse_def sample_exec_def field_of_def
        flattenJSON_def flatten_entry_def flatten_child_def)

text \<open>
  C9, amended. Two calls with the same identifier, credential and secret, in runs whose
  transport gives the same outcome to the request of each run and whose AWS calls give
  the same outcomes, return the same validity and the same message, whatever the clocks,
  the user agents and the orders in which maps are visited. They return the same details
  as well, provided that the body which the transport returns does not decode to an
  object in which two entries with different values share a path.
\<close>

theorem verifyAPIKey_repeatable:
  assumes "visits_all w1" and "visits_all w2"
    and "\<forall>cfg. services (toLower l service) = Some cfg \<longrightarrow>
      http_do w1 (build_request l w1 cfg key) = http_do w2 (build_request l w2 cfg key)"
    and "aws_load_config w1 key secret = aws_load_config w2 key secret"
    and "sts_get_caller_identity w1 key secret = sts_get_caller_identity w2 key secret"
  shows "Valid (fst (verifyAPIKey l w1 services service key secret)) =
      Valid (fst (verifyAPIKey l w2 services service key secret)) \<and>
    Message (fst (verifyAPIKey l w1 services service key secret)) =
      Message (fst (verifyAPIKey l w2 services service key secret)) \<and>
    ((\<forall>cfg statusCode body jsonResp.
        services (toLower l service) = Some cfg \<and>
        http_do w1 (build_request l w1 cfg key) = Inr (statusCode, body) \<and>
        json_unmarshal l body = Inr jsonResp \<longrightarrow>
        collision_free (sprint_v l) jsonResp) \<longrightarrow>
     Details (fst (verifyAPIKey l w1 services service key secret)) =
       Details (fst (verifyAPIKey l w2 services service key secret)))"
proof (cases "services (toLower l service)")
  case None
  then show ?thesis
    by (simp add: verifyAPIKey_def)
next
  case (Some cfg)
  let ?r1 = "\<lparr>Service = toLower l (Name cfg), Key = maskKey key, Valid = False, Message = '''',
      Details = '''', Timestamp = now w1\<rparr>"
  let ?r2 = "\<lparr>Service = toLower l (Name cfg), Key = maskKey key, Valid = False, Message = '''',
      Details = '''', Timestamp = now w2\<rparr>"
  have d: "Details ?r1 = Details ?r2"
    by simp
  have t: "http_do w1 (build_request l w1 cfg key) = http_do w2 (build_request l w2 cfg key)"
    using assms(3) Some by blast
  consider (http) "Method cfg = ''GET'' \<or> Method cfg = ''POST''"
    | (aws) "\<not> (Method cfg = ''GET'' \<or> Method cfg = ''POST'')" "Method cfg = ''SDK''"
        "SDKType cfg = ''aws''"
    | (other) "\<not> (Method cfg = ''GET'' \<or> Method cfg = ''POST'')"
        "\<not> (Method cfg = ''SDK'' \<and> SDKType cfg = ''aws'')"
    by blast
  then show ?thesis
  proof cases
    case http
    then have "verifyAPIKey l w1 services service key secret = verifyHTTP l w1 cfg key ?r1"
      and "verifyAPIKey l w2 services service key secret = verifyHTTP l w2 cfg key ?r2"
      using Some by (simp_all add: verifyAPIKey_def Let_def)
    then show ?thesis
      using verifyHTTP_order [OF assms(1,2) d t] Some by simp
  next
    case aws
    then have "verifyAPIKey l w1 services service key secret = verifyAWS w1 key secret ?r1"
      and "verifyAPIKey l w2 services service key secret = verifyAWS w2 key secret ?r2"
      using Some by (simp_all add: verifyAPIKey_def Let_def)
    then show ?thesis
      using verifyAWS_order [OF d assms(4,5)] by simp
  next
    case other
    then show ?thesis
      using Some by (auto simp: verifyAPIKey_def Let_def)
  qed
qed

theorem verifyAPIKey_repeatable_witness:
  \<open>visits_all (sample_world id (Inr (200, ''{"login":"octocat","name":"The Octocat"}'')) (Inl [])) \<and>
   visits_all (sample_world rev (Inr (200, ''{"login":"octocat","name":"The Octocat"}'')) (Inl [])) \<and>
   sample_services (toLower sample_lib ''github'') = Some github_config \<and>
   json_unmarshal sample_lib ''{"login":"octocat","name":"The Octocat"}'' =
     Inr [(''login'', JString ''octocat''), (''name'', JString ''The Octocat'')] \<and>
   collision_free sprint_sample [(''login'', JString ''octocat''), (''name'', JString ''The Octocat'')] \<and>
   Valid (fst (verifyAPIKey sample_lib
      (sample_world id (Inr (200, ''{"login":"octocat","name":"The Octocat"}'')) (Inl []))
      sample_services ''github'' ''ghp_0123456789'' '''')) =
   Valid (fst (verifyAPIKey sample_lib
      (sample_world rev (Inr (200, ''{"login":"octocat","name":"The Octocat"}'')) (Inl []))
      sample_services ''github'' ''ghp_0123456789'' '''')) \<and>
   Message (fst (verifyAPIKey sample_lib
      (sample_world id (Inr (200, ''{"login":"octocat","name":"The Octocat"}'')) (Inl []))
      sample_services ''github'' ''ghp_0123456789'' '''')) =
   Message (fst (verifyAPIKey sample_lib
      (sample_world rev (Inr (200, ''{"login":"octocat","name":"The Octocat"}'')) (Inl []))
      sample_services ''github'' ''ghp_0123456789'' '''')) \<and>
   Details (fst (verifyAPIKey sample_lib
      (sample_world id (Inr (200, ''{"login":"octocat","name":"The Octocat"}'')) (Inl []))
      sample_services ''github'' ''ghp_0123456789'' '''')) =
   Details (fst (verifyAPIKey sample_lib
      (sample_world rev (Inr (200, ''{"login":"octocat","name":"The Octocat"}'')) (Inl []))
      sample_services ''github'' ''ghp_0123456789'' '''')) \<and>
   Details (fst (verifyAPIKey sample_lib
      (sample_world rev (Inr (200, ''{"login":"octocat","name":"The Octocat"}'')) (Inl []))
      sample_services ''github'' ''ghp_0123456789'' '''')) = ''user: octocat''\<close>
proof -
  let ?body = \<open>''{"login":"octocat","name":"The Octocat"}''\<close>
  let ?w1 = "sample_world id (Inr (200, ?body)) (Inl [])"
  let ?w2 = "sample_world rev (Inr (200, ?body)) (Inl [])"
  have v1: "visits_all ?w1" and v2: "visits_all ?w2"
    by (simp_all add: visits_all_def sample_world_def)
  have s: "sample_services (toLower sample_lib ''github'') = Some github_config"
    by (simp add: sample_services_def sample_lib_def lower_char_def)
  have u: "json_unmarshal sample_lib ?body =
      Inr [(''login'', JString ''octocat''), (''name'', JString ''The Octocat'')]"
    by (simp add: sample_lib_def sample_unmarshal_def)
  have t: "\<forall>cfg. sample_services (toLower sample_lib ''github'') = Some cfg \<longrightarrow>
      http_do ?w1 (build_request sample_lib ?w1 cfg ''ghp_0123456789'') =
      http_do ?w2 (build_request sample_lib ?w2 cfg ''ghp_0123456789'')"
    by (simp add: sample_http)
  have a: "aws_load_config ?w1 ''ghp_0123456789'' '''' = aws_load_config ?w2 ''ghp_0123456789'' ''''"
    "sts_get_caller_identity ?w1 ''ghp_0123456789'' '''' =
      sts_get_caller_identity ?w2 ''ghp_0123456789'' ''''"
    by (simp_all add: sample_aws)
  have c: "collision_free sprint_sample [(''login'', JString ''octocat''), (''name'', JString ''The Octocat'')]"
    by (simp add: collision_free_def unshared_def flat_entries_def entry_entries_def)
  have p: "\<forall>cfg statusCode body jsonResp.
        sample_services (toLower sample_lib ''github'') = Some cfg \<and>
        http_do ?w1 (build_request sample_lib ?w1 cfg ''ghp_0123456789'') = Inr (statusCode, body) \<and>
        json_unmarshal sample_lib body = Inr jsonResp \<longrightarrow>
        collision_free (sprint_v sample_lib) jsonResp"
    using c u by (auto simp: sample_http) (simp add: sample_lib_def)
  have e: "Details (fst (verifyAPIKey sample_lib ?w2 sample_services ''github'' ''ghp_0123456789'' '''')) =
      ''user: octocat''"
    by (simp add: verifyAPIKey_def sample_services_def sample_lib_def lower_char_def
        github_config_def zero_config_def Let_def verifyHTTP_def sample_world_def
        interpret_response_def sample_unmarshal_def error_message_def valid_result_def
        renderTemplate_def sample_parse_def sample_exec_def field_of_def
        flattenJSON_def flatten_entry_def flatten_child_def)
  show ?thesis
    using verifyAPIKey_repeatable [where ?w1.0 = ?w1 and ?w2.0 = ?w2 and l = sample_lib
        and services = sample_services and service = "''github''"
        and key = "''ghp_0123456789''" and secret = "''''", OF v1 v2 t a] v1 v2 s u c p e
    by blast
qed

end
